theory Spec2Isabelle
  imports Main "HOL-Library.Word"
begin

section \<open>The TCP port allocator (pkg/k8s/tcpportmapping.go)\<close>

text \<open>
  Go's \<open>int32\<close> is a 32-bit word read as two's complement: \<open>+\<close> wraps around and the
  comparisons of the source are comparisons of \<open>sint\<close>.
\<close>

type_synonym int32 = "32 word"

text \<open>\<open>ServiceWithPort\<close> holds a combination of service name, namespace and port.\<close>

record ServiceWithPort =
  Namespace :: string
  Name :: string
  Port :: int32

text \<open>
  The errors of both packages. Messages that come from outside the program (the cluster
  client, the HTTP transport, the configuration provider) are kept as opaque strings.
  \<^item> \<open>ErrExhausted\<close>: \<open>errors.New("unable to find an available port")\<close>;
  \<^item> \<open>ErrSaveState e\<close>: \<open>"unable to save TCP port mapping: %w"\<close> around the error of \<open>saveState\<close>;
  \<^item> \<open>ErrLoadState e\<close>: \<open>"unable to load state from ConfigMap ..."\<close>;
  \<^item> \<open>ErrParseFormat\<close>: \<open>"could not parse service into name and port"\<close>;
  \<^item> \<open>ErrSyntax\<close>, \<open>ErrRange\<close>: the two errors of \<open>strconv.ParseInt\<close>;
  \<^item> \<open>ErrAddTCP e\<close>: \<open>"unable to add service to the TCP state table: %w"\<close>;
  \<^item> \<open>ErrBuildConfig e\<close>: whatever \<open>provider.BuildConfig\<close> returned;
  \<^item> \<open>ErrGetPods e\<close>: \<open>"unable to get pods: %w"\<close>;
  \<^item> \<open>ErrNoPods\<close>: \<open>"unable to find any active mesh pods to deploy config"\<close>;
  \<^item> \<open>ErrDeploy e\<close>: \<open>"error deploying configuration: %v"\<close>;
  \<^item> \<open>ErrPodNoNameOrIP\<close>: \<open>"pod has no name or IP"\<close>;
  \<^item> \<open>ErrMarshal e\<close>, \<open>ErrRequest e\<close>, \<open>ErrBody e\<close>, \<open>ErrStatus code\<close>, \<open>ErrDo e\<close>: the five
    failures of \<open>deployToPod\<close> (\<open>"unable to marshal configuration"\<close>, \<open>"unable to create
    request"\<close>, \<open>"unable to read response body"\<close>, \<open>"received non-ok response code"\<close>,
    \<open>"unable to deploy configuration"\<close>);
  \<^item> \<open>ErrLabelSelector e\<close>, \<open>ErrListServices e\<close>, \<open>ErrCheckMesh e\<close>, \<open>ErrCreateMesh e\<close>: the four
    failures of \<open>createMeshServices\<close>;
  \<^item> \<open>ErrExternal e\<close>: an error of the cluster client passed on unchanged.
\<close>

datatype error =
    ErrExhausted
  | ErrSaveState string
  | ErrLoadState string
  | ErrParseFormat
  | ErrSyntax
  | ErrRange
  | ErrAddTCP error
  | ErrBuildConfig string
  | ErrGetPods string
  | ErrNoPods
  | ErrDeploy error
  | ErrPodNoNameOrIP
  | ErrMarshal string
  | ErrRequest string
  | ErrBody string
  | ErrStatus nat
  | ErrDo string
  | ErrLabelSelector string
  | ErrListServices string
  | ErrCheckMesh string
  | ErrCreateMesh error
  | ErrExternal string

text \<open>
  \<open>TCPPortMapping\<close>: the table and the bounds of the range. The mutex, the client and
  the lister are not part of the value: what the cluster answers is an argument of the
  operation that asks. The table's values are pointers in the source; nothing writes
  through them after they are stored, so the table holds the values.
\<close>

record TCPPortMapping =
  table :: "int32 \<rightharpoonup> ServiceWithPort"
  minPort :: int32
  maxPort :: int32

text \<open>
  \<open>Find\<close> ranges over the Go map, whose iteration order is not fixed: \<open>ks\<close> is the order
  in which this call visits the keys. \<open>range_order\<close> says that \<open>ks\<close> is such an order.
\<close>

definition range_order :: "'k list \<Rightarrow> ('k \<rightharpoonup> 'v) \<Rightarrow> bool" where
  "range_order ks t \<longleftrightarrow> distinct ks \<and> set ks = dom t"

fun Find_range :: "int32 list \<Rightarrow> (int32 \<rightharpoonup> ServiceWithPort) \<Rightarrow> ServiceWithPort \<Rightarrow> int32 \<times> bool" where
  "Find_range [] t svc = (0, False)"
| "Find_range (port # ks) t svc =
     (case t port of
        None \<Rightarrow> Find_range ks t svc
      | Some v \<Rightarrow>
          if Name v = Name svc \<and> Namespace v = Namespace svc \<and> Port v = Port svc
          then (port, True)
          else Find_range ks t svc)"

definition Find :: "TCPPortMapping \<Rightarrow> int32 list \<Rightarrow> ServiceWithPort \<Rightarrow> int32 \<times> bool" where
  "Find m ks svc = Find_range ks (table m) svc"


text \<open>
  The loop of \<open>Add\<close>: \<open>for i := m.minPort; i < m.maxPort+1; i++\<close>, returning the first
  \<open>i\<close> that is not a key of the table. \<open>bound\<close> is \<open>m.maxPort+1\<close>, computed in \<open>int32\<close>.
\<close>

function Add_scan :: "(int32 \<rightharpoonup> ServiceWithPort) \<Rightarrow> int32 \<Rightarrow> int32 \<Rightarrow> int32 option" where
  "Add_scan t i bound =
     (if sint i < sint bound
      then (if t i \<noteq> None then Add_scan t (i + 1) bound else Some i)
      else None)"
  by pat_completeness auto
termination
proof (relation "measure (\<lambda>(t, i, bound). nat (sint bound - sint i))")
  show "wf (measure (\<lambda>(t, i, bound). nat (sint bound - sint i)))" by simp
next
  fix t :: "int32 \<rightharpoonup> ServiceWithPort" and i bound :: int32
  assume lt: "sint i < sint bound" and "t i \<noteq> None"
  have "sint bound < 2 ^ 31" using sint_lt [of bound] by simp
  moreover have "- (2 ^ 31) \<le> sint i" using sint_ge [of i] by simp
  ultimately have "signed_take_bit 31 (sint i + 1) = sint i + 1"
    using lt by (intro signed_take_bit_int_eq_self) auto
  then have "sint (i + 1) = sint i + 1" by (simp add: sint_word_add)
  with lt show "((t, i + 1, bound), (t, i, bound))
      \<in> measure (\<lambda>(t, i, bound). nat (sint bound - sint i))"
    by simp
qed

declare Add_scan.simps [simp del]

text \<open>
  \<open>Add\<close>. \<open>saved\<close> is what \<open>m.saveState()\<close> returns in this call: \<open>None\<close> for \<open>nil\<close>.
  The entry is written before \<open>saveState\<close> is called and is not taken back.
\<close>

definition Add :: "TCPPortMapping \<Rightarrow> ServiceWithPort \<Rightarrow> string option \<Rightarrow> TCPPortMapping \<times> (error + int32)" where
  "Add m svc saved =
     (case Add_scan (table m) (minPort m) (maxPort m + 1) of
        None \<Rightarrow> (m, Inl ErrExhausted)
      | Some i \<Rightarrow>
          (let m' = m\<lparr>table := (table m)(i \<mapsto> svc)\<rparr>
           in case saved of
                Some err \<Rightarrow> (m', Inl (ErrSaveState err))
              | None \<Rightarrow> (m', Inr i)))"

subsection \<open>The persistence entries: strconv, strings and fmt as the source uses them\<close>

text \<open>
  \<open>strings.Split(s, sep)\<close> for a separator of one byte: the pieces between the
  separators, \<open>[""]\<close> for the empty string, never an empty slice.
\<close>

fun strings_Split :: "char \<Rightarrow> string \<Rightarrow> string list" where
  "strings_Split sep [] = [[]]"
| "strings_Split sep (c # cs) =
     (if c = sep then [] # strings_Split sep cs
      else (case strings_Split sep cs of
              w # ws \<Rightarrow> (c # w) # ws
            | [] \<Rightarrow> [[c]]))"

definition is_digit :: "char \<Rightarrow> bool" where
  "is_digit c \<longleftrightarrow> 48 \<le> (of_char c :: nat) \<and> (of_char c :: nat) \<le> 57"

definition digit_val :: "char \<Rightarrow> nat" where
  "digit_val c = of_char c - 48"

text \<open>
  The loop of \<open>strconv.ParseUint(s, 10, 32)\<close>: a byte that is not a decimal digit is a
  syntax error, a value above \<open>1<<32 - 1\<close> a range error, reported where it is met.
\<close>

fun ParseUint_loop :: "nat \<Rightarrow> string \<Rightarrow> error + nat" where
  "ParseUint_loop n [] = Inr n"
| "ParseUint_loop n (c # cs) =
     (if \<not> is_digit c then Inl ErrSyntax
      else (let n1 = n * 10 + digit_val c
            in if n1 > 2 ^ 32 - 1 then Inl ErrRange else ParseUint_loop n1 cs))"

definition ParseUint :: "string \<Rightarrow> error + nat" where
  "ParseUint s = (if s = [] then Inl ErrSyntax else ParseUint_loop 0 s)"

text \<open>
  \<open>strconv.ParseInt(s, 10, 32)\<close>, with the conversion \<open>int32(port)\<close> that both callers
  apply to its result: an optional sign, then \<open>ParseUint\<close>, then the check against
  \<open>1 << 31\<close>. A range error of \<open>ParseUint\<close> stays a range error.
\<close>

definition ParseInt :: "string \<Rightarrow> error + int32" where
  "ParseInt s =
     (case s of
        [] \<Rightarrow> Inl ErrSyntax
      | c # cs \<Rightarrow>
          (let neg = (c = CHR ''-'');
               s' = (if c = CHR ''+'' \<or> c = CHR ''-'' then cs else s)
           in case ParseUint s' of
                Inl err \<Rightarrow> Inl err
              | Inr un \<Rightarrow>
                  if \<not> neg \<and> un \<ge> 2 ^ 31 then Inl ErrRange
                  else if neg \<and> un > 2 ^ 31 then Inl ErrRange
                  else Inr (word_of_int (if neg then - int un else int un))))"

text \<open>\<open>metav1.NamespaceDefault\<close> of the Kubernetes API.\<close>

definition NamespaceDefault :: string where
  "NamespaceDefault = ''default''"

definition parseServiceNamePort :: "string \<Rightarrow> error + ServiceWithPort" where
  "parseServiceNamePort value =
     (let service = strings_Split CHR '':'' value
      in if length service < 2 then Inl ErrParseFormat
         else (case ParseInt (service ! 1) of
                 Inl err \<Rightarrow> Inl err
               | Inr port \<Rightarrow>
                   (let substring = strings_Split CHR ''/'' (service ! 0)
                    in if length substring = 1
                       then Inr \<lparr>Namespace = NamespaceDefault, Name = substring ! 0, Port = port\<rparr>
                       else Inr \<lparr>Namespace = substring ! 0, Name = substring ! 1, Port = port\<rparr>)))"

text \<open>The verb \<open>%d\<close> of \<open>fmt.Sprintf\<close> on an \<open>int32\<close>: decimal digits, \<open>-\<close> before a negative value.\<close>

definition digit_char :: "nat \<Rightarrow> char" where
  "digit_char d = char_of (48 + d)"

fun dec_nat :: "nat \<Rightarrow> string" where
  "dec_nat n = (if n < 10 then [digit_char n] else dec_nat (n div 10) @ [digit_char (n mod 10)])"

declare dec_nat.simps [simp del]

definition format_d :: "int32 \<Rightarrow> string" where
  "format_d x = (if sint x < 0 then CHR ''-'' # dec_nat (nat (- sint x)) else dec_nat (nat (sint x)))"

text \<open>\<open>fmt.Sprintf("%s/%s:%d", namespace, name, port)\<close>; the name is the first parameter.\<close>

definition formatServiceNamePort :: "string \<Rightarrow> string \<Rightarrow> int32 \<Rightarrow> string" where
  "formatServiceNamePort name namespace port = namespace @ ''/'' @ name @ '':'' @ format_d port"

subsection \<open>Rehydration\<close>

text \<open>
  What the program writes with its logger. The allocator's file has no logger: the log
  that \<open>loadState\<close> returns is the one it was given.
\<close>

datatype log_level = Debug | Info | Warn | Error

type_synonym log_line = "log_level \<times> string"

text \<open>
  The loop of \<open>loadState\<close> over \<open>cfg.Data\<close>, a Go map from strings to strings: the list
  is the map's entries in the order in which this \<open>range\<close> visits them.
\<close>

fun loadState_range ::
  "(string \<times> string) list \<Rightarrow> (int32 \<rightharpoonup> ServiceWithPort) \<Rightarrow> log_line list
     \<Rightarrow> (int32 \<rightharpoonup> ServiceWithPort) \<times> log_line list" where
  "loadState_range [] t lg = (t, lg)"
| "loadState_range ((k, v) # kvs) t lg =
     (case ParseInt k of
        Inl err \<Rightarrow> loadState_range kvs t lg
      | Inr port \<Rightarrow>
          (case parseServiceNamePort v of
             Inl err \<Rightarrow> loadState_range kvs t lg
           | Inr svc \<Rightarrow> loadState_range kvs (t(port \<mapsto> svc)) lg))"

text \<open>
  \<open>loadState\<close>. \<open>got\<close> is the lister's answer for the ConfigMap: its error, or the
  entries of \<open>cfg.Data\<close>.
\<close>

definition loadState ::
  "TCPPortMapping \<Rightarrow> string + (string \<times> string) list \<Rightarrow> log_line list
     \<Rightarrow> error option \<times> TCPPortMapping \<times> log_line list" where
  "loadState m got lg =
     (case got of
        Inl err \<Rightarrow> (Some (ErrLoadState err), m, lg)
      | Inr data \<Rightarrow>
          if length data > 0
          then (let (t, lg') = loadState_range data (table m) lg
                in (None, m\<lparr>table := t\<rparr>, lg'))
          else (None, m, lg))"

definition NewTCPPortMapping ::
  "string + (string \<times> string) list \<Rightarrow> int32 \<Rightarrow> int32 \<Rightarrow> log_line list
     \<Rightarrow> (error + TCPPortMapping) \<times> log_line list" where
  "NewTCPPortMapping got minP maxP lg =
     (let m = \<lparr>table = Map.empty, minPort = minP, maxPort = maxP\<rparr>
      in case loadState m got lg of
           (Some err, m', lg') \<Rightarrow> (Inl err, lg')
         | (None, m', lg') \<Rightarrow> (Inr m', lg'))"

text \<open>
  \<open>Controller.getTCPPort\<close> (the controller's only call of \<open>Add\<close>): \<open>Find\<close> first, \<open>Add\<close>
  when nothing is found. Its two debug lines are left out.
\<close>

definition getTCPPort ::
  "TCPPortMapping \<Rightarrow> int32 list \<Rightarrow> string option \<Rightarrow> string \<Rightarrow> string \<Rightarrow> int32
     \<Rightarrow> TCPPortMapping \<times> (error + int32)" where
  "getTCPPort m ks saved serviceName serviceNamespace servicePort =
     (let svc = \<lparr>Namespace = serviceNamespace, Name = serviceName, Port = servicePort\<rparr>
      in case Find m ks svc of
           (port, True) \<Rightarrow> (m, Inr port)
         | (port, False) \<Rightarrow>
             (case Add m svc saved of
                (m', Inl err) \<Rightarrow> (m', Inl (ErrAddTCP err))
              | (m', Inr port) \<Rightarrow> (m', Inr port)))"

section \<open>The controller (pkg/controller)\<close>

subsection \<open>Data\<close>

text \<open>
  A \<open>*dynamic.Configuration\<close> is \<open>'c option\<close>: \<open>None\<close> is the nil pointer, \<open>Some v\<close> a
  pointer to the value \<open>v\<close>; equality of \<open>'c\<close> stands for deep equality of the values.
  \<open>safe.Safe\<close> holds an \<open>interface{}\<close>: \<open>NilValue\<close> before the first \<open>Set\<close>, \<open>Ptr p\<close>
  once a \<open>*dynamic.Configuration\<close> has been stored.
\<close>

datatype 'c any = NilValue | Ptr "'c option"

text \<open>
  \<open>reflect.DeepEqual(c.lastConfiguration.Get(), conf)\<close>: the second argument is always
  an interface that holds a \<open>*dynamic.Configuration\<close>, so a nil interface differs from it;
  two pointers are deeply equal when both are nil or both point to deeply equal values.
\<close>

fun DeepEqual :: "'c any \<Rightarrow> 'c option \<Rightarrow> bool" where
  "DeepEqual NilValue conf = False"
| "DeepEqual (Ptr p) conf = (p = conf)"

text \<open>A mesh pod, as far as the controller reads it: name, IP and the \<open>Ready\<close> flags of its containers.\<close>

record Pod =
  pod_Name :: string
  pod_IP :: string
  pod_ContainerStatuses :: "bool list"

record DeployRecord =
  dr_Name :: string
  dr_IP :: string
  dr_Success :: bool
  dr_Message :: string

text \<open>\<open>intstr.IntOrString\<close> and \<open>intstr.FromInt\<close>, which converts its \<open>int\<close> to \<open>int32\<close>.\<close>

datatype IntOrString = IntVal int32 | StrVal string

definition FromInt :: "int \<Rightarrow> IntOrString" where
  "FromInt val = IntVal (word_of_int val)"

text \<open>\<open>corev1.ServicePort\<close>, \<open>corev1.Service\<close> as the controller reads and writes them.\<close>

record ServicePort =
  sp_Name :: string
  sp_Protocol :: string
  sp_Port :: int32
  sp_TargetPort :: IntOrString

record Service =
  svc_Name :: string
  svc_Namespace :: string
  svc_Labels :: "(string \<times> string) list"
  svc_Annotations :: "string \<rightharpoonup> string"
  svc_Ports :: "ServicePort list"
  svc_Selector :: "(string \<times> string) list"

text \<open>
  The controller: the fields of the struct that the modelled functions read or write,
  and after them what these functions do to the outside: \<open>puts\<close> lists the PUT requests
  sent (pod IP and body), \<open>created\<close> the services handed to \<open>CreateService\<close> with
  success, \<open>logged\<close> the lines written with the logger (warnings and errors).
\<close>

record 'c Controller =
  defaultMode :: string
  meshNamespace :: string
  tcpStateTable :: TCPPortMapping
  lastConfiguration :: "'c any"
  readiness :: bool
  deployLog :: "DeployRecord list"
  puts :: "(string \<times> 'c option) list"
  created :: "Service list"
  logged :: "log_line list"

text \<open>
  Modelled from the spec: the constants of package \<open>k8s\<close> that are declared outside the
  given sources: the tag of a forced refresh (\<open>k8s.ConfigMessageChanForce\<close>, "force"),
  the annotation of the service mode (\<open>k8s.AnnotationServiceType\<close>) and the mode "tcp"
  (\<open>k8s.ServiceTypeTCP\<close>). \<open>corev1.ProtocolTCP\<close> is the Kubernetes API's "TCP".
\<close>

definition ConfigMessageChanForce :: string where
  "ConfigMessageChanForce = ''force''"

definition AnnotationServiceType :: string where
  "AnnotationServiceType = ''maesh.containo.us/traffic-type''"

definition ServiceTypeTCP :: string where
  "ServiceTypeTCP = ''tcp''"

definition ProtocolTCP :: string where
  "ProtocolTCP = ''TCP''"

text \<open>
  Modelled from the spec: \<open>DeployLog.LogDeploy\<close> and \<open>API.EnableReadiness\<close>, whose code is
  not among the given sources. The deploy log is a bounded buffer that drops its oldest
  record (\<open>NewDeployLog(1000)\<close>); the time stamp of a record is left out. Readiness is a
  flag of the API that is off when the API is created and that \<open>EnableReadiness\<close> sets.
\<close>

definition LogDeploy :: "'c Controller \<Rightarrow> string \<Rightarrow> string \<Rightarrow> bool \<Rightarrow> string \<Rightarrow> 'c Controller" where
  "LogDeploy c name ip ok msg =
     (let l = deployLog c @ [\<lparr>dr_Name = name, dr_IP = ip, dr_Success = ok, dr_Message = msg\<rparr>]
      in c\<lparr>deployLog := (if length l > 1000 then tl l else l)\<rparr>)"

definition EnableReadiness :: "'c Controller \<Rightarrow> 'c Controller" where
  "EnableReadiness c = c\<lparr>readiness := True\<rparr>"

text \<open>
  \<open>NewMeshController\<close> with \<open>Init\<close>: nothing is stored in \<open>lastConfiguration\<close>, the
  deploy log is empty, readiness is off. \<open>tcpStateTable\<close> is nil until \<open>Run\<close> sets it; the
  empty mapping stands for it here, and nothing reads it before \<open>Run\<close> has set it.
\<close>

definition NewMeshController :: "string \<Rightarrow> string \<Rightarrow> 'c Controller" where
  "NewMeshController mode meshNs =
     \<lparr>defaultMode = mode, meshNamespace = meshNs,
      tcpStateTable = \<lparr>table = Map.empty, minPort = 0, maxPort = 0\<rparr>,
      lastConfiguration = NilValue, readiness = False, deployLog = [], puts = [],
      created = [], logged = []\<rparr>"

subsection \<open>Deploying a configuration\<close>

text \<open>
  What one call of \<open>deployToPod\<close> meets outside the program: \<open>json.Marshal\<close> fails,
  \<open>http.NewRequest\<close> fails, or \<open>client.Do\<close> returns: a response or nil (a response is its
  body's read error, if any, and its status code) and an error or nil.
\<close>

datatype attempt =
    MarshalFails string
  | NewRequestFails string
  | Do "(string option \<times> nat) option" "string option"

definition deployToPod :: "'c Controller \<Rightarrow> string \<Rightarrow> string \<Rightarrow> 'c option \<Rightarrow> attempt \<Rightarrow> error option \<times> 'c Controller" where
  "deployToPod c name ip config a =
     (if name = [] \<or> ip = [] then (Some ErrPodNoNameOrIP, c)
      else (case a of
              MarshalFails e \<Rightarrow> (Some (ErrMarshal e), c)
            | NewRequestFails e \<Rightarrow> (Some (ErrRequest e), c)
            | Do resp err \<Rightarrow>
                (let c1 = c\<lparr>puts := puts c @ [(ip, config)]\<rparr>
                 in case resp of
                      Some (Some bodyErr, code) \<Rightarrow>
                        (Some (ErrBody bodyErr), LogDeploy c1 name ip False ''unable to read response body'')
                    | Some (None, code) \<Rightarrow>
                        if code \<noteq> 200
                        then (Some (ErrStatus code), LogDeploy c1 name ip False ''received non-ok response code'')
                        else (case err of
                                Some e \<Rightarrow> (Some (ErrDo e), LogDeploy c1 name ip False ''unable to deploy configuration'')
                              | None \<Rightarrow> (None, LogDeploy c1 name ip True []))
                    | None \<Rightarrow>
                        (case err of
                           Some e \<Rightarrow> (Some (ErrDo e), LogDeploy c1 name ip False ''unable to deploy configuration'')
                         | None \<Rightarrow> (None, LogDeploy c1 name ip True [])))))"

text \<open>
  \<open>backoff.Retry\<close> around \<open>deployToPod\<close>: the operation is called again after a failure
  until it succeeds or 15 seconds have gone. How many calls fit is decided outside: \<open>a\<close>
  is the first call's attempt and \<open>as\<close> those of the calls that follow it in time.
\<close>

fun Retry :: "'c Controller \<Rightarrow> string \<Rightarrow> string \<Rightarrow> 'c option \<Rightarrow> attempt \<Rightarrow> attempt list \<Rightarrow> error option \<times> 'c Controller" where
  "Retry c name ip config a [] = deployToPod c name ip config a"
| "Retry c name ip config a (b # bs) =
     (case deployToPod c name ip config a of
        (None, c') \<Rightarrow> (None, c')
      | (Some e, c') \<Rightarrow> Retry c' name ip config b bs)"

text \<open>
  \<open>deployToPods\<close> starts one task for each pod and waits for all of them; it returns
  the error of a task that failed, if any. The tasks run side by side in the source; here
  they run in the order of the list, and of several errors the first in that order is
  returned. \<open>http\<close> gives the attempts that the task of each pod meets.
\<close>

fun deployToPods :: "'c Controller \<Rightarrow> Pod list \<Rightarrow> 'c option \<Rightarrow> (Pod \<Rightarrow> attempt \<times> attempt list) \<Rightarrow> error option \<times> 'c Controller" where
  "deployToPods c [] config http = (None, c)"
| "deployToPods c (pod # pods) config http =
     (case Retry c (pod_Name pod) (pod_IP pod) config (fst (http pod)) (snd (http pod)) of
        (r, c1) \<Rightarrow>
          (case deployToPods c1 pods config http of
             (rs, c2) \<Rightarrow> ((case r of Some e \<Rightarrow> Some e | None \<Rightarrow> rs), c2)))"

text \<open>
  \<open>deployConfiguration\<close>. \<open>podList\<close> is the lister's answer for the pods with the label
  \<open>component=maesh-mesh\<close>. (\<open>labels.NewRequirement\<close> is called with constants it accepts.)
\<close>

definition deployConfiguration :: "'c Controller \<Rightarrow> string + Pod list \<Rightarrow> (Pod \<Rightarrow> attempt \<times> attempt list) \<Rightarrow> 'c option \<Rightarrow> error option \<times> 'c Controller" where
  "deployConfiguration c podList http config =
     (case podList of
        Inl err \<Rightarrow> (Some (ErrGetPods err), c)
      | Inr pods \<Rightarrow>
          if length pods = 0 then (Some ErrNoPods, c)
          else (case deployToPods c pods config http of
                  (Some err, c') \<Rightarrow> (Some (ErrDeploy err), c')
                | (None, c') \<Rightarrow> (None, c')))"

text \<open>The inner loop of \<open>deployConfigurationToUnreadyNodes\<close>: is some container not ready?\<close>

fun status_range :: "bool list \<Rightarrow> bool" where
  "status_range [] = False"
| "status_range (ready # statuses) = (if \<not> ready then True else status_range statuses)"

fun unreadyPods_range :: "Pod list \<Rightarrow> Pod list \<Rightarrow> Pod list" where
  "unreadyPods_range [] unreadyPods = unreadyPods"
| "unreadyPods_range (pod # pods) unreadyPods =
     (if status_range (pod_ContainerStatuses pod)
      then unreadyPods_range pods (unreadyPods @ [pod])
      else unreadyPods_range pods unreadyPods)"

definition deployConfigurationToUnreadyNodes :: "'c Controller \<Rightarrow> string + Pod list \<Rightarrow> (Pod \<Rightarrow> attempt \<times> attempt list) \<Rightarrow> 'c option \<Rightarrow> error option \<times> 'c Controller" where
  "deployConfigurationToUnreadyNodes c podList http config =
     (case podList of
        Inl err \<Rightarrow> (Some (ErrGetPods err), c)
      | Inr pods \<Rightarrow>
          if length pods = 0 then (Some ErrNoPods, c)
          else (case deployToPods c (unreadyPods_range pods []) config http of
                  (Some err, c') \<Rightarrow> (Some (ErrDeploy err), c')
                | (None, c') \<Rightarrow> (None, c')))"

subsection \<open>The main loop\<close>

text \<open>
  What one \<open>select\<close> of \<open>Run\<close> receives, with the answers that the cycle it starts gets
  from outside:
  \<^item> \<open>StopCh\<close>: the stop channel;
  \<^item> \<open>ConfigRefresh message built podList http\<close>: a message on \<open>configRefreshChan\<close>, what
    \<open>provider.BuildConfig\<close> returns, the pod lister's answer and the attempts of the pushes;
  \<^item> \<open>TimerC podList http\<close>: the 10-second timer.
\<close>

datatype 'c event =
    StopCh
  | ConfigRefresh string "string + 'c option" "string + Pod list" "Pod \<Rightarrow> attempt \<times> attempt list"
  | TimerC "string + Pod list" "Pod \<Rightarrow> attempt \<times> attempt list"

text \<open>
  How one pass through the \<open>for\<close> ends: \<open>Run\<close> returns, the pass panics (a failed type
  assertion; the deferred \<open>HandleCrash\<close> logs the panic and does not resume the loop), or
  the loop goes on. \<open>Next\<close> says which way the pass took: no deploy was called
  (\<open>NoDeploy\<close>), the deploy returned an error and the pass left by \<open>break\<close>
  (\<open>DeployFailed\<close>), or the deploy returned nil and \<open>EnableReadiness\<close> was called
  (\<open>Deployed\<close>).
\<close>

datatype cycle = NoDeploy | DeployFailed error | Deployed

datatype 'c pass = Return "error option" | Panic | Next cycle "'c Controller"

definition Run_select :: "'c Controller \<Rightarrow> 'c event \<Rightarrow> 'c pass" where
  "Run_select c ev =
     (case ev of
        StopCh \<Rightarrow> Return None
      | ConfigRefresh message built podList http \<Rightarrow>
          (case built of
             Inl confErr \<Rightarrow> Return (Some (ErrBuildConfig confErr))
           | Inr conf \<Rightarrow>
               if message = ConfigMessageChanForce \<or> \<not> DeepEqual (lastConfiguration c) conf
               then (let c1 = c\<lparr>lastConfiguration := Ptr conf\<rparr>
                     in case deployConfiguration c1 podList http conf of
                          (Some deployErr, c2) \<Rightarrow> Next (DeployFailed deployErr) c2
                        | (None, c2) \<Rightarrow> Next Deployed (EnableReadiness c2))
               else Next NoDeploy c)
      | TimerC podList http \<Rightarrow>
          (case lastConfiguration c of
             NilValue \<Rightarrow> Panic
           | Ptr conf \<Rightarrow>
               (case deployConfigurationToUnreadyNodes c podList http conf of
                  (Some deployErr, c1) \<Rightarrow> Next (DeployFailed deployErr) c1
                | (None, c1) \<Rightarrow> Next Deployed (EnableReadiness c1))))"

text \<open>
  The \<open>for\<close> of \<open>Run\<close> on the events that arrive, in their order. The result is how
  \<open>Run\<close> ends, or \<open>Waiting\<close> in the \<open>select\<close> when the events have all been handled,
  together with the cycles that were run, the oldest first.
\<close>

datatype 'c run = Returned "error option" | Panicked | Waiting "'c Controller"

fun Run_for :: "'c Controller \<Rightarrow> 'c event list \<Rightarrow> cycle list \<Rightarrow> 'c run \<times> cycle list" where
  "Run_for c [] cycles = (Waiting c, cycles)"
| "Run_for c (ev # evs) cycles =
     (case Run_select c ev of
        Return err \<Rightarrow> (Returned err, cycles)
      | Panic \<Rightarrow> (Panicked, cycles)
      | Next cy c' \<Rightarrow> Run_for c' evs (cycles @ [cy]))"

subsection \<open>Creating the mesh services\<close>

definition userServiceToMeshServiceName :: "'c Controller \<Rightarrow> string \<Rightarrow> string \<Rightarrow> string" where
  "userServiceToMeshServiceName c serviceName namespace =
     meshNamespace c @ ''-'' @ serviceName @ ''-6d61657368-'' @ namespace"

text \<open>
  The answer of \<open>ServiceLister.Services(ns).Get(name)\<close>: a service, an error for which
  \<open>errors.IsNotFound\<close> holds, or another error.
\<close>

datatype lookup = Found | NotFound string | LookupFails string

text \<open>
  The loop over \<open>service.Spec.Ports\<close> in \<open>createMeshService\<close>; \<open>idx\<close> (the source's \<open>id\<close>) is the index of
  \<open>sp\<close> in the slice, \<open>ports\<close> the slice that \<open>append\<close> extends. For the pass with index
  \<open>idx\<close>, \<open>orders idx\<close> is the order in which \<open>Find\<close> visits the table and \<open>saves idx\<close> what
  \<open>saveState\<close> returns, should \<open>getTCPPort\<close> come to call them.
\<close>

fun createMeshService_range ::
  "string \<Rightarrow> Service \<Rightarrow> (nat \<Rightarrow> int32 list) \<Rightarrow> (nat \<Rightarrow> string option) \<Rightarrow> nat \<Rightarrow> ServicePort list
     \<Rightarrow> ServicePort list \<Rightarrow> 'c Controller \<Rightarrow> ServicePort list \<times> 'c Controller" where
  "createMeshService_range serviceMode service orders saves idx [] ports c = (ports, c)"
| "createMeshService_range serviceMode service orders saves idx (sp # sps) ports c =
     (if sp_Protocol sp \<noteq> ProtocolTCP
      then createMeshService_range serviceMode service orders saves (idx + 1) sps ports
             (c\<lparr>logged := logged c @ [(Warn, ''Unsupported port type, skipping port '' @ sp_Name sp)]\<rparr>)
      else if serviceMode = ServiceTypeTCP
      then (case getTCPPort (tcpStateTable c) (orders idx) (saves idx)
                   (svc_Name service) (svc_Namespace service) (sp_Port sp) of
              (m', Inl err) \<Rightarrow>
                createMeshService_range serviceMode service orders saves (idx + 1) sps ports
                  (c\<lparr>tcpStateTable := m',
                     logged := logged c @ [(Error, ''Unable to find available TCP port, skipping port '' @ sp_Name sp)]\<rparr>)
            | (m', Inr port) \<Rightarrow>
                createMeshService_range serviceMode service orders saves (idx + 1) sps
                  (ports @ [\<lparr>sp_Name = sp_Name sp, sp_Protocol = [], sp_Port = sp_Port sp,
                             sp_TargetPort = FromInt (sint port)\<rparr>])
                  (c\<lparr>tcpStateTable := m'\<rparr>))
      else createMeshService_range serviceMode service orders saves (idx + 1) sps
             (ports @ [\<lparr>sp_Name = sp_Name sp, sp_Protocol = [], sp_Port = sp_Port sp,
                        sp_TargetPort = FromInt (5000 + int idx)\<rparr>])
             c)"

text \<open>
  \<open>createMeshService\<close>. \<open>got\<close> is the lister's answer for the mesh service's name and
  \<open>createErr\<close> what \<open>CreateService\<close> returns. A missing annotation reads as the empty
  string, as a missing key of a Go map does.
\<close>

definition createMeshService ::
  "'c Controller \<Rightarrow> Service \<Rightarrow> lookup \<Rightarrow> (nat \<Rightarrow> int32 list) \<Rightarrow> (nat \<Rightarrow> string option) \<Rightarrow> string option
     \<Rightarrow> error option \<times> 'c Controller" where
  "createMeshService c service got orders saves createErr =
     (case got of
        Found \<Rightarrow> (None, c)
      | LookupFails err \<Rightarrow> (Some (ErrExternal err), c)
      | NotFound err \<Rightarrow>
          (let meshServiceName = userServiceToMeshServiceName c (svc_Name service) (svc_Namespace service);
               annotation = (case svc_Annotations service AnnotationServiceType of
                               None \<Rightarrow> [] | Some v \<Rightarrow> v);
               serviceMode = (if annotation = [] then defaultMode c else annotation);
               (ports, c1) = createMeshService_range serviceMode service orders saves 0
                               (svc_Ports service) [] c;
               svc = \<lparr>svc_Name = meshServiceName, svc_Namespace = meshNamespace c,
                      svc_Labels = [(''app'', ''maesh'')], svc_Annotations = Map.empty,
                      svc_Ports = ports, svc_Selector = [(''component'', ''maesh-mesh'')]\<rparr>
           in case createErr of
                Some e \<Rightarrow> (Some (ErrExternal e), c1)
              | None \<Rightarrow> (None, c1\<lparr>created := created c1 @ [svc]\<rparr>)))"

text \<open>
  What \<open>createMeshServices\<close> meets for one listed service: whether the ignore list holds
  it, the lister's answer for its mesh service in \<open>createMeshServices\<close> and then in
  \<open>createMeshService\<close>, and the answers that \<open>createMeshService\<close> gets.
\<close>

record answers =
  an_ignored :: bool
  an_got :: lookup
  an_got_again :: lookup
  an_orders :: "nat \<Rightarrow> int32 list"
  an_saves :: "nat \<Rightarrow> string option"
  an_createErr :: "string option"

fun createMeshServices_range :: "'c Controller \<Rightarrow> (Service \<times> answers) list \<Rightarrow> error option \<times> 'c Controller" where
  "createMeshServices_range c [] = (None, c)"
| "createMeshServices_range c ((service, an) # svcs) =
     (if an_ignored an then createMeshServices_range c svcs
      else (case an_got an of
              Found \<Rightarrow> createMeshServices_range c svcs
            | LookupFails err \<Rightarrow> (Some (ErrCheckMesh err), c)
            | NotFound err \<Rightarrow>
                (case createMeshService c service (an_got_again an) (an_orders an) (an_saves an)
                        (an_createErr an) of
                   (Some e, c') \<Rightarrow> (Some (ErrCreateMesh e), c')
                 | (None, c') \<Rightarrow> createMeshServices_range c' svcs)))"

text \<open>
  \<open>createMeshServices\<close>. \<open>sel\<close> is the error of \<open>c.ignored.LabelSelector()\<close>, if any, and
  \<open>listed\<close> the answer of \<open>c.ServiceLister.List(sel)\<close>.
\<close>

definition createMeshServices ::
  "'c Controller \<Rightarrow> string option \<Rightarrow> string + (Service \<times> answers) list \<Rightarrow> error option \<times> 'c Controller" where
  "createMeshServices c sel listed =
     (case sel of
        Some err \<Rightarrow> (Some (ErrLabelSelector err), c)
      | None \<Rightarrow>
          (case listed of
             Inl err \<Rightarrow> (Some (ErrListServices err), c)
           | Inr svcs \<Rightarrow> createMeshServices_range c svcs))"

text \<open>
  \<open>Run\<close>: the port mapping is loaded from the ConfigMap (\<open>cfgMap\<close> is the lister's answer)
  for the range 10000 to 10100, the mesh services are created, then the loop starts.
  Starting the informers and the API server changes nothing that is modelled here.
\<close>

definition Run ::
  "'c Controller \<Rightarrow> string + (string \<times> string) list \<Rightarrow> string option \<Rightarrow> string + (Service \<times> answers) list
     \<Rightarrow> 'c event list \<Rightarrow> 'c run \<times> cycle list" where
  "Run c cfgMap sel listed evs =
     (case NewTCPPortMapping cfgMap 10000 10100 (logged c) of
        (Inl err, lg) \<Rightarrow> (Returned (Some err), [])
      | (Inr m, lg) \<Rightarrow>
          (let c1 = c\<lparr>tcpStateTable := m, logged := lg\<rparr>;
               c2 = (case createMeshServices c1 sel listed of
                       (Some err, c') \<Rightarrow> c'\<lparr>logged := logged c' @ [(Error, ''could not create mesh services'')]\<rparr>
                     | (None, c') \<Rightarrow> c')
           in Run_for c2 evs []))"

section \<open>Notions of the claims\<close>

text \<open>A port of the range: between \<open>minPort\<close> and \<open>maxPort\<close>, both included, as \<open>int32\<close> values.\<close>

definition in_range :: "TCPPortMapping \<Rightarrow> int32 \<Rightarrow> bool" where
  "in_range m p \<longleftrightarrow> sint (minPort m) \<le> sint p \<and> sint p \<le> sint (maxPort m)"

text \<open>
  The two invariants of the port assignment: every assigned port lies in the range, and
  no ref is under two ports.
\<close>

definition range_inv :: "TCPPortMapping \<Rightarrow> bool" where
  "range_inv m \<longleftrightarrow> (\<forall>p \<in> dom (table m). in_range m p)"

definition injective :: "TCPPortMapping \<Rightarrow> bool" where
  "injective m \<longleftrightarrow> (\<forall>p q ref. table m p = Some ref \<and> table m q = Some ref \<longrightarrow> p = q)"

text \<open>
  The entries of a document that \<open>loadState\<close> does not skip, parsed, in the order of
  the document.
\<close>

fun parsed_entries :: "(string \<times> string) list \<Rightarrow> (int32 \<times> ServiceWithPort) list" where
  "parsed_entries [] = []"
| "parsed_entries ((k, v) # kvs) =
     (case (ParseInt k, parseServiceNamePort v) of
        (Inr port, Inr svc) \<Rightarrow> (port, svc) # parsed_entries kvs
      | _ \<Rightarrow> parsed_entries kvs)"

text \<open>
  \<open>accepted a\<close>: the attempt \<open>a\<close> makes \<open>deployToPod\<close> return nil (\<open>client.Do\<close> returns no
  error, and no response or one with a readable body and status 200). \<open>always a\<close> gives
  every pod the one attempt \<open>a\<close>.
\<close>

definition accepted :: "attempt \<Rightarrow> bool" where
  "accepted a =
     (case a of
        Do resp err \<Rightarrow>
          err = None \<and> (case resp of None \<Rightarrow> True | Some (bodyErr, code) \<Rightarrow> bodyErr = None \<and> code = 200)
      | _ \<Rightarrow> False)"

definition always :: "attempt \<Rightarrow> Pod \<Rightarrow> attempt \<times> attempt list" where
  "always a pod = (a, [])"

text \<open>
  \<open>pushed_ok http pod\<close>: the pod takes the configuration, that is, \<open>backoff.Retry\<close> around
  \<open>deployToPod\<close> returns nil for it: the pod has a name and an IP, and one of the attempts
  that the calls of \<open>deployToPod\<close> meet is accepted.
\<close>

definition pushed_ok :: "(Pod \<Rightarrow> attempt \<times> attempt list) \<Rightarrow> Pod \<Rightarrow> bool" where
  "pushed_ok http pod \<longleftrightarrow>
     pod_Name pod \<noteq> [] \<and> pod_IP pod \<noteq> [] \<and> list_ex accepted (fst (http pod) # snd (http pod))"


definition spec_shadow_port :: "ServicePort \<Rightarrow> IntOrString \<Rightarrow> ServicePort" where
  "spec_shadow_port sp targetPort =
     \<lparr>sp_Name = sp_Name sp, sp_Protocol = [], sp_Port = sp_Port sp, sp_TargetPort = targetPort\<rparr>"

inductive spec_shadow_ports ::
  "string \<Rightarrow> string \<Rightarrow> string \<Rightarrow> (nat \<Rightarrow> string option) \<Rightarrow> nat \<Rightarrow> ServicePort list \<Rightarrow> TCPPortMapping
     \<Rightarrow> ServicePort list \<Rightarrow> TCPPortMapping \<Rightarrow> log_line list \<Rightarrow> bool"
  for mode :: string and name :: string and ns :: string and saves :: "nat \<Rightarrow> string option" where
  finished:
    "spec_shadow_ports mode name ns saves idx [] m [] m []"
| omitted:
    "sp_Protocol sp \<noteq> ProtocolTCP \<Longrightarrow>
     spec_shadow_ports mode name ns saves (idx + 1) sps m ps m' lines \<Longrightarrow>
     spec_shadow_ports mode name ns saves idx (sp # sps) m ps m'
       ((Warn, ''Unsupported port type, skipping port '' @ sp_Name sp) # lines)"
| positional:
    "sp_Protocol sp = ProtocolTCP \<Longrightarrow> mode \<noteq> ServiceTypeTCP \<Longrightarrow>
     spec_shadow_ports mode name ns saves (idx + 1) sps m ps m' lines \<Longrightarrow>
     spec_shadow_ports mode name ns saves idx (sp # sps) m
       (spec_shadow_port sp (FromInt (5000 + int idx)) # ps) m' lines"
| existing:
    "sp_Protocol sp = ProtocolTCP \<Longrightarrow> mode = ServiceTypeTCP \<Longrightarrow>
     table m port = Some \<lparr>Namespace = ns, Name = name, Port = sp_Port sp\<rparr> \<Longrightarrow>
     spec_shadow_ports mode name ns saves (idx + 1) sps m ps m' lines \<Longrightarrow>
     spec_shadow_ports mode name ns saves idx (sp # sps) m
       (spec_shadow_port sp (IntVal port) # ps) m' lines"
| allocated:
    "sp_Protocol sp = ProtocolTCP \<Longrightarrow> mode = ServiceTypeTCP \<Longrightarrow>
     \<lparr>Namespace = ns, Name = name, Port = sp_Port sp\<rparr> \<notin> ran (table m) \<Longrightarrow>
     Add m \<lparr>Namespace = ns, Name = name, Port = sp_Port sp\<rparr> (saves idx) = (m1, Inr port) \<Longrightarrow>
     spec_shadow_ports mode name ns saves (idx + 1) sps m1 ps m' lines \<Longrightarrow>
     spec_shadow_ports mode name ns saves idx (sp # sps) m
       (spec_shadow_port sp (IntVal port) # ps) m' lines"
| skipped:
    "sp_Protocol sp = ProtocolTCP \<Longrightarrow> mode = ServiceTypeTCP \<Longrightarrow>
     \<lparr>Namespace = ns, Name = name, Port = sp_Port sp\<rparr> \<notin> ran (table m) \<Longrightarrow>
     Add m \<lparr>Namespace = ns, Name = name, Port = sp_Port sp\<rparr> (saves idx) = (m1, Inl err) \<Longrightarrow>
     spec_shadow_ports mode name ns saves (idx + 1) sps m1 ps m' lines \<Longrightarrow>
     spec_shadow_ports mode name ns saves idx (sp # sps) m ps m'
       ((Error, ''Unable to find available TCP port, skipping port '' @ sp_Name sp) # lines)"


section \<open>Properties\<close>

subsection \<open>The scan of \<open>Add\<close>\<close>

lemma sint_succ_below:
  fixes i b :: int32
  assumes "sint i < sint b"
  shows "sint (i + 1) = sint i + 1"
proof -
  have "sint b < 2 ^ 31" using sint_lt [of b] by simp
  moreover have "- (2 ^ 31) \<le> sint i" using sint_ge [of i] by simp
  ultimately have "signed_take_bit 31 (sint i + 1) = sint i + 1"
    using assms by (intro signed_take_bit_int_eq_self) auto
  then show ?thesis by (simp add: sint_word_add)
qed

lemma sint_inj32: "sint (a::int32) = sint b \<Longrightarrow> a = b"
  by (rule signed_word_eqI)

lemma Add_scan_Some:
  "Add_scan t i b = Some p \<Longrightarrow>
     sint i \<le> sint p \<and> sint p < sint b \<and> t p = None \<and>
     (\<forall>j. sint i \<le> sint j \<and> sint j < sint p \<longrightarrow> t j \<noteq> None)"
proof (induction t i b rule: Add_scan.induct)
  case (1 t i bound)
  show ?case
  proof (cases "sint i < sint bound")
    case False
    with "1.prems" show ?thesis by (simp add: Add_scan.simps)
  next
    case lt: True
    show ?thesis
    proof (cases "t i")
      case None
      with lt "1.prems" have "p = i" by (simp add: Add_scan.simps)
      with None lt show ?thesis by auto
    next
      case (Some v)
      with lt "1.prems" have rec: "Add_scan t (i + 1) bound = Some p"
        by (simp add: Add_scan.simps)
      from lt Some have ih: "sint (i + 1) \<le> sint p \<and> sint p < sint bound \<and> t p = None \<and>
         (\<forall>j. sint (i + 1) \<le> sint j \<and> sint j < sint p \<longrightarrow> t j \<noteq> None)"
        using "1.IH" rec by simp
      have s: "sint (i + 1) = sint i + 1" using lt by (rule sint_succ_below)
      have "t j \<noteq> None" if "sint i \<le> sint j" "sint j < sint p" for j
      proof (cases "sint j = sint i")
        case True
        then have "j = i" by (rule sint_inj32)
        with Some show ?thesis by simp
      next
        case False
        with that s have "sint (i + 1) \<le> sint j" by simp
        with ih that show ?thesis by blast
      qed
      with ih s show ?thesis by auto
    qed
  qed
qed

lemma Add_scan_None:
  "Add_scan t i b = None \<Longrightarrow> sint i \<le> sint j \<Longrightarrow> sint j < sint b \<Longrightarrow> t j \<noteq> None"
proof (induction t i b rule: Add_scan.induct)
  case (1 t i bound)
  from "1.prems" have lt: "sint i < sint bound" by simp
  with "1.prems"(1) obtain v where v: "t i = Some v"
    by (cases "t i") (simp_all add: Add_scan.simps)
  with lt "1.prems"(1) have rec: "Add_scan t (i + 1) bound = None"
    by (simp add: Add_scan.simps)
  have s: "sint (i + 1) = sint i + 1" using lt by (rule sint_succ_below)
  show ?case
  proof (cases "sint j = sint i")
    case True
    then have "j = i" by (rule sint_inj32)
    with v show ?thesis by simp
  next
    case False
    with "1.prems" s have "sint (i + 1) \<le> sint j" by simp
    with "1.IH" lt v rec "1.prems"(3) show ?thesis by simp
  qed
qed

lemma bound_no_wrap:
  fixes b :: int32
  assumes "sint b < 2 ^ 31 - 1"
  shows "sint (b + 1) = sint b + 1"
proof -
  have "- (2 ^ 31) \<le> sint b" using sint_ge [of b] by simp
  with assms have "signed_take_bit 31 (sint b + 1) = sint b + 1"
    by (intro signed_take_bit_int_eq_self) auto
  then show ?thesis by (simp add: sint_word_add)
qed

subsection \<open>\<open>Find\<close> and \<open>Add\<close>\<close>

lemma same_fields:
  fixes v svc :: ServiceWithPort
  shows "(Name v = Name svc \<and> Namespace v = Namespace svc \<and> Port v = Port svc) = (v = svc)"
  by auto

lemma Find_range_found:
  "Find_range ks t svc = (p, True) \<Longrightarrow> t p = Some svc \<and> p \<in> set ks"
  by (induction ks) (auto simp: same_fields split: option.splits if_splits)

lemma Find_range_finds:
  "k \<in> set ks \<Longrightarrow> t k = Some svc \<Longrightarrow> snd (Find_range ks t svc)"
  by (induction ks) (auto simp: same_fields split: option.splits)

lemma Find_range_missing:
  "\<not> snd (Find_range ks t svc) \<Longrightarrow> Find_range ks t svc = (0, False) \<and> (\<forall>k \<in> set ks. t k \<noteq> Some svc)"
  by (induction ks) (auto simp: same_fields split: option.splits if_splits)

lemma Add_cases:
  "(Add_scan (table m) (minPort m) (maxPort m + 1) = None \<and> Add m svc saved = (m, Inl ErrExhausted))
   \<or> (\<exists>i. Add_scan (table m) (minPort m) (maxPort m + 1) = Some i \<and> table m i = None
          \<and> sint (minPort m) \<le> sint i \<and> sint i < sint (maxPort m + 1)
          \<and> Add m svc saved = (m\<lparr>table := (table m)(i \<mapsto> svc)\<rparr>,
                case saved of None \<Rightarrow> Inr i | Some e \<Rightarrow> Inl (ErrSaveState e)))"
proof (cases "Add_scan (table m) (minPort m) (maxPort m + 1)")
  case None
  then show ?thesis by (simp add: Add_def)
next
  case (Some i)
  from Add_scan_Some [OF Some] have "table m i = None" "sint (minPort m) \<le> sint i"
    "sint i < sint (maxPort m + 1)" by auto
  with Some show ?thesis by (auto simp: Add_def split: option.splits)
qed

lemma below_bound:
  fixes i b :: int32
  assumes "sint i < sint (b + 1)"
  shows "sint i \<le> sint b"
proof (cases "sint b < 2 ^ 31 - 1")
  case True
  then have "sint (b + 1) = sint b + 1" by (rule bound_no_wrap)
  with assms show ?thesis by simp
next
  case False
  with sint_lt [of b] have "sint b = sint (2147483647 :: int32)" by simp
  then have "b = 2147483647" by (rule sint_inj32)
  then have "sint (b + 1) = - (2 ^ 31)" by simp
  with assms sint_ge [of i] show ?thesis by simp
qed

lemma getTCPPort_found:
  assumes "range_order ks (table m)" and "ref \<in> ran (table m)"
  shows "\<exists>p. table m p = Some ref \<and> getTCPPort m ks saved (Name ref) (Namespace ref) (Port ref) = (m, Inr p)"
proof -
  from assms(2) obtain q where q: "table m q = Some ref" by (auto simp: ran_def)
  with assms(1) have "q \<in> set ks" by (auto simp: range_order_def)
  then have "snd (Find_range ks (table m) ref)" using q by (rule Find_range_finds)
  then obtain p where p: "Find_range ks (table m) ref = (p, True)"
    by (cases "Find_range ks (table m) ref") auto
  then have "table m p = Some ref" using Find_range_found by blast
  moreover have r: "\<lparr>Namespace = Namespace ref, Name = Name ref, Port = Port ref\<rparr> = ref" by simp
  ultimately show ?thesis using p unfolding getTCPPort_def Find_def r by auto
qed

subsection \<open>Formatting and parsing an entry\<close>

lemma is_digit_digit_char: "d < 10 \<Longrightarrow> is_digit (digit_char d)"
  by (simp add: is_digit_def digit_char_def)

lemma digit_val_digit_char: "d < 10 \<Longrightarrow> digit_val (digit_char d) = d"
  by (simp add: digit_val_def digit_char_def)

lemma is_digit_not_sign: "is_digit c \<Longrightarrow> c \<noteq> CHR ''-'' \<and> c \<noteq> CHR ''+'' \<and> c \<noteq> CHR '':'' \<and> c \<noteq> CHR ''/''"
  by (auto simp: is_digit_def)

lemma dec_nat_digits: "c \<in> set (dec_nat n) \<Longrightarrow> is_digit c"
proof (induction n rule: dec_nat.induct)
  case (1 n)
  show ?case
  proof (cases "n < 10")
    case True
    with "1.prems" show ?thesis
      by (simp add: dec_nat.simps [of n] is_digit_digit_char)
  next
    case False
    with "1.prems" have "c \<in> set (dec_nat (n div 10)) \<or> c = digit_char (n mod 10)"
      by (auto simp: dec_nat.simps [of n])
    with False "1.IH" show ?thesis
      by (auto simp: is_digit_digit_char)
  qed
qed

lemma dec_nat_nonempty: "dec_nat n \<noteq> []"
  by (subst dec_nat.simps) simp

lemma ParseUint_loop_snoc:
  "ParseUint_loop n (ds @ [c]) =
     (case ParseUint_loop n ds of
        Inl e \<Rightarrow> Inl e
      | Inr k \<Rightarrow> ParseUint_loop k [c])"
  by (induction ds arbitrary: n) (auto simp: Let_def)

lemma ParseUint_loop_dec_nat:
  "n \<le> 2 ^ 32 - 1 \<Longrightarrow> ParseUint_loop 0 (dec_nat n) = Inr n"
proof (induction n rule: dec_nat.induct)
  case (1 n)
  show ?case
  proof (cases "n < 10")
    case True
    then show ?thesis
      by (simp add: dec_nat.simps [of n] is_digit_digit_char digit_val_digit_char)
  next
    case False
    have "n div 10 \<le> 2 ^ 32 - 1" using "1.prems" by simp
    with False "1.IH" have ih: "ParseUint_loop 0 (dec_nat (n div 10)) = Inr (n div 10)"
      by simp
    have "n div 10 * 10 + n mod 10 = n" by simp
    with False ih "1.prems" show ?thesis
      by (simp add: dec_nat.simps [of n] ParseUint_loop_snoc is_digit_digit_char
            digit_val_digit_char)
  qed
qed

lemma ParseUint_dec_nat: "n \<le> 2 ^ 32 - 1 \<Longrightarrow> ParseUint (dec_nat n) = Inr n"
  by (simp add: ParseUint_def dec_nat_nonempty ParseUint_loop_dec_nat)

lemma ParseInt_format_d: "ParseInt (format_d x) = Inr x"
proof (cases "sint x < 0")
  case True
  define un where "un = nat (- sint x)"
  have un: "un \<le> 2 ^ 31" using sint_ge [of x] by (simp add: un_def)
  then have "ParseUint (dec_nat un) = Inr un" by (intro ParseUint_dec_nat) simp
  moreover have "- int un = sint x" using True by (simp add: un_def)
  ultimately show ?thesis using True un
    by (simp add: ParseInt_def format_d_def un_def [symmetric])
next
  case False
  define un where "un = nat (sint x)"
  have un: "un < 2 ^ 31" using sint_lt [of x] False by (simp add: un_def)
  then have p: "ParseUint (dec_nat un) = Inr un" by (intro ParseUint_dec_nat) simp
  obtain c cs where cs: "dec_nat un = c # cs"
    using dec_nat_nonempty [of un] by (cases "dec_nat un") auto
  then have "is_digit c" using dec_nat_digits [of c un] by simp
  then have c: "c \<noteq> CHR ''-''" "c \<noteq> CHR ''+''" using is_digit_not_sign by blast+
  have "int un = sint x" using False by (simp add: un_def)
  with False un p c cs show ?thesis
    by (simp add: ParseInt_def format_d_def un_def [symmetric])
qed

lemma format_d_chars: "c \<in> set (format_d x) \<Longrightarrow> c \<noteq> CHR '':'' \<and> c \<noteq> CHR ''/''"
  using is_digit_not_sign dec_nat_digits
  by (fastforce simp: format_d_def split: if_splits)

lemma strings_Split_nonempty: "strings_Split sep s \<noteq> []"
  by (induction s) (auto split: list.splits)

lemma strings_Split_none: "sep \<notin> set s \<Longrightarrow> strings_Split sep s = [s]"
  by (induction s) auto

lemma strings_Split_first:
  "sep \<notin> set a \<Longrightarrow> strings_Split sep (a @ sep # b) = a # strings_Split sep b"
  by (induction a) auto

text \<open>
  C8. Parsing a formatted entry gives back the namespace, the name and the port, for
  every \<open>int32\<close> port and every namespace and name without \<open>:\<close> and \<open>/\<close> (the names that
  Kubernetes admits have neither). \<open>formatServiceNamePort\<close> takes the name first and the
  namespace second, as \<open>saveState\<close> calls it.
\<close>

theorem parse_format_roundtrip:
  assumes "CHR '':'' \<notin> set ns" and "CHR ''/'' \<notin> set ns"
    and "CHR '':'' \<notin> set name" and "CHR ''/'' \<notin> set name"
  shows "parseServiceNamePort (formatServiceNamePort name ns port)
           = Inr \<lparr>Namespace = ns, Name = name, Port = port\<rparr>"
proof -
  have colon: "CHR '':'' \<notin> set (ns @ ''/'' @ name)" using assms by simp
  have fd: "CHR '':'' \<notin> set (format_d port)" using format_d_chars by blast
  have "strings_Split CHR '':'' ((ns @ ''/'' @ name) @ CHR '':'' # format_d port)
      = (ns @ ''/'' @ name) # strings_Split CHR '':'' (format_d port)"
    using colon by (rule strings_Split_first)
  then have s1: "strings_Split CHR '':'' (formatServiceNamePort name ns port)
      = [ns @ ''/'' @ name, format_d port]"
    using fd by (simp add: formatServiceNamePort_def strings_Split_none)
  have "strings_Split CHR ''/'' (ns @ CHR ''/'' # name) = ns # strings_Split CHR ''/'' name"
    using assms(2) by (rule strings_Split_first)
  then have s2: "strings_Split CHR ''/'' (ns @ CHR ''/'' # name) = [ns, name]"
    using assms(4) by (simp add: strings_Split_none)
  show ?thesis
    by (simp add: parseServiceNamePort_def s1 s2 ParseInt_format_d)
qed

theorem parse_format_roundtrip_witness:
  "CHR '':'' \<notin> set ''default'' \<and> CHR ''/'' \<notin> set ''default''
   \<and> CHR '':'' \<notin> set ''db'' \<and> CHR ''/'' \<notin> set ''db''
   \<and> parseServiceNamePort (formatServiceNamePort ''db'' ''default'' 5432)
       = Inr \<lparr>Namespace = ''default'', Name = ''db'', Port = 5432\<rparr>"
  using parse_format_roundtrip [of "''default''" "''db''" 5432] by simp

subsection \<open>The allocator's claims\<close>



text \<open>
  C1, as the code has it. When \<open>maxPort\<close> is below the largest \<open>int32\<close> (so that
  \<open>maxPort+1\<close> does not wrap around) and a port of the range is unassigned, \<open>Add\<close> assigns
  the lowest unassigned port of the range to the ref; it returns that port when
  \<open>saveState\<close> succeeds and the wrapped error of \<open>saveState\<close> when it fails. When every port
  of the range is assigned, \<open>Add\<close> fails with the error of a full range and leaves the
  table as it is. For a ref that has a port, \<open>getTCPPort\<close> returns a port of the ref and
  changes nothing.
\<close>

theorem Add_lowest_unassigned:
  "(sint (maxPort m) < 2 ^ 31 - 1 \<and> (\<exists>p. in_range m p \<and> table m p = None) \<longrightarrow>
      (\<exists>i. in_range m i \<and> table m i = None
          \<and> (\<forall>j. in_range m j \<and> sint j < sint i \<longrightarrow> table m j \<noteq> None)
          \<and> fst (Add m ref saved) = m\<lparr>table := (table m)(i \<mapsto> ref)\<rparr>
          \<and> snd (Add m ref saved) = (case saved of None \<Rightarrow> Inr i | Some e \<Rightarrow> Inl (ErrSaveState e))))
   \<and> ((\<forall>p. in_range m p \<longrightarrow> table m p \<noteq> None) \<longrightarrow> Add m ref saved = (m, Inl ErrExhausted))
   \<and> (range_order ks (table m) \<and> ref \<in> ran (table m) \<longrightarrow>
        (\<exists>p. table m p = Some ref
            \<and> getTCPPort m ks saved (Name ref) (Namespace ref) (Port ref) = (m, Inr p)))"
proof (intro conjI impI)
  assume a: "sint (maxPort m) < 2 ^ 31 - 1 \<and> (\<exists>p. in_range m p \<and> table m p = None)"
  then have nw: "sint (maxPort m + 1) = sint (maxPort m) + 1" by (intro bound_no_wrap) simp
  from a obtain p where p: "in_range m p" "table m p = None" by blast
  show "\<exists>i. in_range m i \<and> table m i = None
          \<and> (\<forall>j. in_range m j \<and> sint j < sint i \<longrightarrow> table m j \<noteq> None)
          \<and> fst (Add m ref saved) = m\<lparr>table := (table m)(i \<mapsto> ref)\<rparr>
          \<and> snd (Add m ref saved) = (case saved of None \<Rightarrow> Inr i | Some e \<Rightarrow> Inl (ErrSaveState e))"
  proof (cases "Add_scan (table m) (minPort m) (maxPort m + 1)")
    case None
    from p nw have "sint (minPort m) \<le> sint p" "sint p < sint (maxPort m + 1)"
      by (simp_all add: in_range_def)
    with None have "table m p \<noteq> None" by (rule Add_scan_None)
    with p show ?thesis by simp
  next
    case (Some i)
    from Add_scan_Some [OF Some] nw have "in_range m i" "table m i = None"
      "\<forall>j. in_range m j \<and> sint j < sint i \<longrightarrow> table m j \<noteq> None"
      by (auto simp: in_range_def)
    with Some show ?thesis
      by (intro exI [of _ i]) (simp add: Add_def split: option.splits)
  qed
next
  assume full: "\<forall>p. in_range m p \<longrightarrow> table m p \<noteq> None"
  show "Add m ref saved = (m, Inl ErrExhausted)"
  proof (cases "Add_scan (table m) (minPort m) (maxPort m + 1)")
    case None
    then show ?thesis by (simp add: Add_def)
  next
    case (Some i)
    from Add_scan_Some [OF Some] have "sint (minPort m) \<le> sint i" "sint i < sint (maxPort m + 1)"
      "table m i = None" by auto
    then have "in_range m i" using below_bound by (simp add: in_range_def)
    with full \<open>table m i = None\<close> show ?thesis by blast
  qed
next
  assume "range_order ks (table m) \<and> ref \<in> ran (table m)"
  then show "\<exists>p. table m p = Some ref
            \<and> getTCPPort m ks saved (Name ref) (Namespace ref) (Port ref) = (m, Inr p)"
    using getTCPPort_found by blast
qed

theorem Add_lowest_unassigned_witness:
  "sint (maxPort \<lparr>table = [10000 \<mapsto> \<lparr>Namespace = ''default'', Name = ''a'', Port = 80\<rparr>],
                  minPort = 10000, maxPort = 10001\<rparr>) < 2 ^ 31 - 1
   \<and> in_range \<lparr>table = [10000 \<mapsto> \<lparr>Namespace = ''default'', Name = ''a'', Port = 80\<rparr>],
                  minPort = 10000, maxPort = 10001\<rparr> 10001
   \<and> Add \<lparr>table = [10000 \<mapsto> \<lparr>Namespace = ''default'', Name = ''a'', Port = 80\<rparr>],
            minPort = 10000, maxPort = 10001\<rparr>
          \<lparr>Namespace = ''default'', Name = ''b'', Port = 81\<rparr> None
       = (\<lparr>table = [10000 \<mapsto> \<lparr>Namespace = ''default'', Name = ''a'', Port = 80\<rparr>,
                     10001 \<mapsto> \<lparr>Namespace = ''default'', Name = ''b'', Port = 81\<rparr>],
            minPort = 10000, maxPort = 10001\<rparr>, Inr 10001)
   \<and> \<not> (\<exists>p. in_range \<lparr>table = [10000 \<mapsto> \<lparr>Namespace = ''default'', Name = ''a'', Port = 80\<rparr>],
                          minPort = 10000, maxPort = 10000\<rparr> p
            \<and> table \<lparr>table = [10000 \<mapsto> \<lparr>Namespace = ''default'', Name = ''a'', Port = 80\<rparr>],
                        minPort = 10000, maxPort = 10000\<rparr> p = None)
   \<and> Add \<lparr>table = [10000 \<mapsto> \<lparr>Namespace = ''default'', Name = ''a'', Port = 80\<rparr>],
            minPort = 10000, maxPort = 10000\<rparr>
          \<lparr>Namespace = ''default'', Name = ''b'', Port = 81\<rparr> None
       = (\<lparr>table = [10000 \<mapsto> \<lparr>Namespace = ''default'', Name = ''a'', Port = 80\<rparr>],
            minPort = 10000, maxPort = 10000\<rparr>, Inl ErrExhausted)
   \<and> range_order [10000]
        (table \<lparr>table = [10000 \<mapsto> \<lparr>Namespace = ''default'', Name = ''a'', Port = 80\<rparr>],
                 minPort = 10000, maxPort = 10001\<rparr>)
   \<and> getTCPPort \<lparr>table = [10000 \<mapsto> \<lparr>Namespace = ''default'', Name = ''a'', Port = 80\<rparr>],
                   minPort = 10000, maxPort = 10001\<rparr> [10000] None ''a'' ''default'' 80
       = (\<lparr>table = [10000 \<mapsto> \<lparr>Namespace = ''default'', Name = ''a'', Port = 80\<rparr>],
            minPort = 10000, maxPort = 10001\<rparr>, Inr 10000)"
proof -
  let ?a = "\<lparr>Namespace = ''default'', Name = ''a'', Port = 80\<rparr>"
  let ?b = "\<lparr>Namespace = ''default'', Name = ''b'', Port = 81\<rparr>"
  let ?m = "\<lparr>table = [10000 \<mapsto> ?a], minPort = 10000, maxPort = 10001\<rparr>"
  let ?full = "\<lparr>table = [10000 \<mapsto> ?a], minPort = 10000, maxPort = 10000\<rparr>"
  have h1: "sint (maxPort ?m) < 2 ^ 31 - 1" by simp
  have h2: "in_range ?m 10001" by (simp add: in_range_def)
  have free: "\<exists>p. in_range ?m p \<and> table ?m p = None"
    using h2 by (intro exI [of _ 10001]) simp
  have h3: "\<forall>p. in_range ?full p \<longrightarrow> table ?full p \<noteq> None"
  proof (intro allI impI)
    fix p :: int32
    assume "in_range ?full p"
    then have "sint p = sint (10000 :: int32)" by (simp add: in_range_def)
    then have "p = 10000" by (rule sint_inj32)
    then show "table ?full p \<noteq> None" by simp
  qed
  have h4: "range_order [10000] (table ?m)" by (simp add: range_order_def)
  have h5: "?a \<in> ran (table ?m)" by (simp add: ran_def)
  have c1: "Add ?m ?b None = (?m\<lparr>table := (table ?m)(10001 \<mapsto> ?b)\<rparr>, Inr 10001)"
    using Add_lowest_unassigned [where m = ?m and ref = ?b and saved = None and ks = "[]"] h1 free
    by (simp add: Add_def Add_scan.simps)
  have c2: "Add ?full ?b None = (?full, Inl ErrExhausted)"
    using Add_lowest_unassigned [where m = ?full and ref = ?b and saved = None and ks = "[]"] h3 by blast
  have c3: "getTCPPort ?m [10000] None ''a'' ''default'' 80 = (?m, Inr 10000)"
    using Add_lowest_unassigned [where m = ?m and ref = ?a and saved = None and ks = "[10000]"] h4 h5
    by (simp add: getTCPPort_def Find_def)
  from h3 have h3': "\<not> (\<exists>p. in_range ?full p \<and> table ?full p = None)" by blast
  from h1 h2 h3' h4 c1 c2 c3 show ?thesis by simp
qed

theorem Add_lowest_unassigned_counterexample:
  "in_range \<lparr>table = Map.empty, minPort = 10000, maxPort = 10100\<rparr> 10000
   \<and> table \<lparr>table = Map.empty, minPort = 10000, maxPort = 10100\<rparr> 10000 = None
   \<and> snd (Add \<lparr>table = Map.empty, minPort = 10000, maxPort = 10100\<rparr>
             \<lparr>Namespace = ''default'', Name = ''db'', Port = 5432\<rparr> (Some ''conflict''))
       = Inl (ErrSaveState ''conflict'')
   \<and> in_range \<lparr>table = Map.empty, minPort = 0, maxPort = 2147483647\<rparr> 0
   \<and> table \<lparr>table = Map.empty, minPort = 0, maxPort = 2147483647\<rparr> 0 = None
   \<and> Add \<lparr>table = Map.empty, minPort = 0, maxPort = 2147483647\<rparr>
          \<lparr>Namespace = ''default'', Name = ''db'', Port = 5432\<rparr> None
       = (\<lparr>table = Map.empty, minPort = 0, maxPort = 2147483647\<rparr>, Inl ErrExhausted)"
  by (simp add: in_range_def Add_def Add_scan.simps)

subsection \<open>The invariants of the table\<close>

lemma loadState_range_log: "snd (loadState_range data t lg) = lg"
  by (induction data arbitrary: t) (auto split: sum.splits)

lemma loadState_range_table:
  "fst (loadState_range data t lg) = t ++ map_of (rev (parsed_entries data))"
  by (induction data arbitrary: t) (auto split: sum.splits)

lemma loadState_eq:
  "loadState m (Inr data) lg = (None, m\<lparr>table := table m ++ map_of (rev (parsed_entries data))\<rparr>, lg)"
proof (cases data)
  case Nil
  then show ?thesis by (simp add: loadState_def)
next
  case (Cons kv kvs)
  obtain t lg' where r: "loadState_range data (table m) lg = (t, lg')"
    by (cases "loadState_range data (table m) lg")
  with loadState_range_log [of data "table m" lg] loadState_range_table [of data "table m" lg]
  have "lg' = lg" "t = table m ++ map_of (rev (parsed_entries data))" by simp_all
  with r Cons show ?thesis by (simp add: loadState_def)
qed

lemma Add_range_inv: "range_inv m \<Longrightarrow> range_inv (fst (Add m ref saved))"
  using Add_cases [of m ref saved] below_bound
  by (auto simp: range_inv_def in_range_def split: if_splits)

lemma Add_injective:
  "injective m \<Longrightarrow> ref \<notin> ran (table m) \<Longrightarrow> injective (fst (Add m ref saved))"
  using Add_cases [of m ref saved]
  by (auto simp: injective_def ran_def split: if_splits)

lemma getTCPPort_cases:
  assumes "range_order ks (table m)"
  shows "fst (getTCPPort m ks saved name ns port) = m
    \<or> (\<lparr>Namespace = ns, Name = name, Port = port\<rparr> \<notin> ran (table m)
        \<and> fst (getTCPPort m ks saved name ns port)
            = fst (Add m \<lparr>Namespace = ns, Name = name, Port = port\<rparr> saved))"
proof (cases "snd (Find_range ks (table m) \<lparr>Namespace = ns, Name = name, Port = port\<rparr>)")
  case True
  then obtain p where "Find_range ks (table m) \<lparr>Namespace = ns, Name = name, Port = port\<rparr> = (p, True)"
    by (cases "Find_range ks (table m) \<lparr>Namespace = ns, Name = name, Port = port\<rparr>") auto
  then show ?thesis
    by (simp add: getTCPPort_def Find_def)
next
  case False
  then obtain p where f: "Find_range ks (table m) \<lparr>Namespace = ns, Name = name, Port = port\<rparr> = (p, False)"
    by (cases "Find_range ks (table m) \<lparr>Namespace = ns, Name = name, Port = port\<rparr>") auto
  from Find_range_missing [OF False] assms
  have "\<lparr>Namespace = ns, Name = name, Port = port\<rparr> \<notin> ran (table m)"
    by (auto simp: ran_def range_order_def dom_def)
  with f show ?thesis
    by (auto simp: getTCPPort_def Find_def split: prod.splits sum.splits)
qed

lemma eval_parse:
  "ParseInt ''10000'' = Inr 10000"
  "ParseInt ''10001'' = Inr 10001"
  "ParseInt ''5'' = Inr 5"
  "ParseInt ''abc'' = Inl ErrSyntax"
  "parseServiceNamePort ''default/db:5432'' = Inr \<lparr>Namespace = ''default'', Name = ''db'', Port = 5432\<rparr>"
  "parseServiceNamePort ''default/a:80'' = Inr \<lparr>Namespace = ''default'', Name = ''a'', Port = 80\<rparr>"
  "parseServiceNamePort ''db:5432'' = Inr \<lparr>Namespace = ''default'', Name = ''db'', Port = 5432\<rparr>"
  by (simp_all add: parseServiceNamePort_def ParseInt_def ParseUint_def is_digit_def digit_val_def
        NamespaceDefault_def)

lemma parsed_entries_append:
  "parsed_entries (xs @ ys) = parsed_entries xs @ parsed_entries ys"
  by (induction xs) (auto split: sum.splits)

lemma parse_legacy:
  assumes "CHR '':'' \<notin> set name" and "CHR ''/'' \<notin> set name"
  shows "parseServiceNamePort (name @ '':'' @ format_d port)
           = Inr \<lparr>Namespace = NamespaceDefault, Name = name, Port = port\<rparr>"
proof -
  have fd: "CHR '':'' \<notin> set (format_d port)" using format_d_chars by blast
  have "strings_Split CHR '':'' (name @ CHR '':'' # format_d port)
      = name # strings_Split CHR '':'' (format_d port)"
    using assms(1) by (rule strings_Split_first)
  then have s1: "strings_Split CHR '':'' (name @ CHR '':'' # format_d port) = [name, format_d port]"
    using fd by (simp add: strings_Split_none)
  have s2: "strings_Split CHR ''/'' name = [name]"
    using assms(2) by (rule strings_Split_none)
  show ?thesis
    by (simp add: parseServiceNamePort_def s1 s2 ParseInt_format_d)
qed

text \<open>
  C3, as the code has it. \<open>Add\<close> keeps every assigned port in the range, and it keeps
  the refs distinct when its ref has no port yet; called for a ref that has one it
  gives the ref a second port. \<open>getTCPPort\<close>, which asks \<open>Find\<close> first, keeps both
  invariants. \<open>loadState\<close> stores every entry it can parse and checks neither the range
  nor the refs: after it the ports lie in the range exactly when they did before and
  every parsed key does, and the refs of a table loaded from nothing are distinct when
  the parsed keys and the parsed refs of the document are.
\<close>

theorem allocator_invariants:
  "(range_inv m \<longrightarrow> range_inv (fst (Add m ref saved)))
   \<and> (injective m \<and> ref \<notin> ran (table m) \<longrightarrow> injective (fst (Add m ref saved)))
   \<and> (range_order ks (table m) \<and> range_inv m \<and> injective m \<longrightarrow>
        range_inv (fst (getTCPPort m ks saved name ns port))
        \<and> injective (fst (getTCPPort m ks saved name ns port)))
   \<and> (range_inv (fst (snd (loadState m (Inr data) lg)))
        \<longleftrightarrow> range_inv m \<and> (\<forall>(p, r) \<in> set (parsed_entries data). in_range m p))
   \<and> (table m = Map.empty \<and> distinct (map fst (parsed_entries data))
        \<and> distinct (map snd (parsed_entries data)) \<longrightarrow>
        injective (fst (snd (loadState m (Inr data) lg))))"
proof (intro conjI impI)
  show "range_inv m \<Longrightarrow> range_inv (fst (Add m ref saved))" by (rule Add_range_inv)
next
  show "injective m \<and> ref \<notin> ran (table m) \<Longrightarrow> injective (fst (Add m ref saved))"
    by (simp add: Add_injective)
next
  assume a: "range_order ks (table m) \<and> range_inv m \<and> injective m"
  with getTCPPort_cases [of ks m saved name ns port]
  show "range_inv (fst (getTCPPort m ks saved name ns port))"
    by (auto simp: Add_range_inv)
next
  assume a: "range_order ks (table m) \<and> range_inv m \<and> injective m"
  with getTCPPort_cases [of ks m saved name ns port]
  show "injective (fst (getTCPPort m ks saved name ns port))"
    by (auto simp: Add_injective)
next
  have "dom (table m ++ map_of (rev (parsed_entries data)))
      = dom (table m) \<union> fst ` set (parsed_entries data)"
    by (simp add: dom_map_of_conv_image_fst Un_commute)
  moreover have "(\<forall>p \<in> dom (table m) \<union> fst ` set (parsed_entries data). in_range m p)
      \<longleftrightarrow> (\<forall>p \<in> dom (table m). in_range m p) \<and> (\<forall>(p, r) \<in> set (parsed_entries data). in_range m p)"
    by (simp add: ball_Un case_prod_unfold)
  ultimately show "range_inv (fst (snd (loadState m (Inr data) lg)))
        \<longleftrightarrow> range_inv m \<and> (\<forall>(p, r) \<in> set (parsed_entries data). in_range m p)"
    by (simp add: loadState_eq range_inv_def in_range_def)
next
  assume a: "table m = Map.empty \<and> distinct (map fst (parsed_entries data))
        \<and> distinct (map snd (parsed_entries data))"
  let ?es = "parsed_entries data"
  have d: "distinct (map fst (rev ?es))" using a by (simp add: rev_map [symmetric])
  have inj: "inj_on snd (set ?es)" using a by (simp add: distinct_map)
  have "p = q" if "map_of (rev ?es) p = Some r" "map_of (rev ?es) q = Some r" for p q r
  proof -
    from that have "(p, r) \<in> set ?es" "(q, r) \<in> set ?es"
      by (auto dest: map_of_SomeD)
    with inj_onD [OF inj, of "(p, r)" "(q, r)"] show ?thesis by simp
  qed
  then show "injective (fst (snd (loadState m (Inr data) lg)))"
    using a by (auto simp: loadState_eq injective_def)
qed

theorem allocator_invariants_witness:
  "range_inv \<lparr>table = [10000 \<mapsto> \<lparr>Namespace = ''default'', Name = ''a'', Port = 80\<rparr>], minPort = 10000, maxPort = 10100\<rparr>
   \<and> injective \<lparr>table = [10000 \<mapsto> \<lparr>Namespace = ''default'', Name = ''a'', Port = 80\<rparr>], minPort = 10000, maxPort = 10100\<rparr>
   \<and> \<lparr>Namespace = ''default'', Name = ''b'', Port = 81\<rparr>
        \<notin> ran (table \<lparr>table = [10000 \<mapsto> \<lparr>Namespace = ''default'', Name = ''a'', Port = 80\<rparr>], minPort = 10000, maxPort = 10100\<rparr>)
   \<and> range_order [10000] (table \<lparr>table = [10000 \<mapsto> \<lparr>Namespace = ''default'', Name = ''a'', Port = 80\<rparr>], minPort = 10000, maxPort = 10100\<rparr>)
   \<and> range_inv (fst (Add \<lparr>table = [10000 \<mapsto> \<lparr>Namespace = ''default'', Name = ''a'', Port = 80\<rparr>], minPort = 10000, maxPort = 10100\<rparr>
                    \<lparr>Namespace = ''default'', Name = ''b'', Port = 81\<rparr> None))
   \<and> injective (fst (Add \<lparr>table = [10000 \<mapsto> \<lparr>Namespace = ''default'', Name = ''a'', Port = 80\<rparr>], minPort = 10000, maxPort = 10100\<rparr>
                    \<lparr>Namespace = ''default'', Name = ''b'', Port = 81\<rparr> None))
   \<and> range_inv (fst (getTCPPort \<lparr>table = [10000 \<mapsto> \<lparr>Namespace = ''default'', Name = ''a'', Port = 80\<rparr>], minPort = 10000, maxPort = 10100\<rparr>
                    [10000] None ''b'' ''default'' 81))
   \<and> injective (fst (getTCPPort \<lparr>table = [10000 \<mapsto> \<lparr>Namespace = ''default'', Name = ''a'', Port = 80\<rparr>], minPort = 10000, maxPort = 10100\<rparr>
                    [10000] None ''b'' ''default'' 81))
   \<and> parsed_entries [(''10000'', ''default/a:80''), (''abc'', ''default/db:5432'')]
        = [(10000, \<lparr>Namespace = ''default'', Name = ''a'', Port = 80\<rparr>)]
   \<and> range_inv (fst (snd (loadState \<lparr>table = Map.empty, minPort = 10000, maxPort = 10100\<rparr>
                    (Inr [(''10000'', ''default/a:80''), (''abc'', ''default/db:5432'')]) [])))
   \<and> injective (fst (snd (loadState \<lparr>table = Map.empty, minPort = 10000, maxPort = 10100\<rparr>
                    (Inr [(''10000'', ''default/a:80''), (''abc'', ''default/db:5432'')]) [])))"
proof -
  let ?a = "\<lparr>Namespace = ''default'', Name = ''a'', Port = 80\<rparr>"
  let ?b = "\<lparr>Namespace = ''default'', Name = ''b'', Port = 81\<rparr>"
  let ?m = "\<lparr>table = [10000 \<mapsto> ?a], minPort = 10000, maxPort = 10100\<rparr>"
  let ?empty = "\<lparr>table = Map.empty, minPort = 10000, maxPort = 10100\<rparr>"
  let ?data = "[(''10000'', ''default/a:80''), (''abc'', ''default/db:5432'')]"
  have h1: "range_inv ?m" by (simp add: range_inv_def in_range_def)
  have h2: "injective ?m" by (auto simp: injective_def split: if_splits)
  have h3: "?b \<notin> ran (table ?m)" by (simp add: ran_def)
  have h4: "range_order [10000] (table ?m)" by (simp add: range_order_def)
  have h5: "parsed_entries ?data = [(10000, ?a)]" by (simp add: eval_parse)
  have h6: "range_inv ?empty" by (simp add: range_inv_def)
  have h7: "in_range ?empty 10000" by (simp add: in_range_def)
  note t1 = allocator_invariants [where m = ?m and ref = ?b and saved = None and ks = "[10000]"
      and name = "''b''" and ns = "''default''" and port = 81 and data = "[]" and lg = "[]"]
  note t2 = allocator_invariants [where m = ?empty and ref = ?b and saved = None and ks = "[]"
      and name = "''b''" and ns = "''default''" and port = 81 and data = ?data and lg = "[]"]
  from t1 h1 h2 h3 h4 have c1: "range_inv (fst (Add ?m ?b None))" "injective (fst (Add ?m ?b None))"
    "range_inv (fst (getTCPPort ?m [10000] None ''b'' ''default'' 81))"
    "injective (fst (getTCPPort ?m [10000] None ''b'' ''default'' 81))"
    by blast+
  from t2 h5 h6 h7 have c2: "range_inv (fst (snd (loadState ?empty (Inr ?data) [])))"
    "injective (fst (snd (loadState ?empty (Inr ?data) [])))"
    by simp_all
  from h1 h2 h3 h4 h5 c1 c2 show ?thesis by blast
qed

theorem allocator_invariants_counterexample:
  "range_inv \<lparr>table = [10000 \<mapsto> \<lparr>Namespace = ''default'', Name = ''db'', Port = 5432\<rparr>], minPort = 10000, maxPort = 10100\<rparr>
   \<and> injective \<lparr>table = [10000 \<mapsto> \<lparr>Namespace = ''default'', Name = ''db'', Port = 5432\<rparr>], minPort = 10000, maxPort = 10100\<rparr>
   \<and> \<not> injective (fst (Add \<lparr>table = [10000 \<mapsto> \<lparr>Namespace = ''default'', Name = ''db'', Port = 5432\<rparr>], minPort = 10000, maxPort = 10100\<rparr>
                        \<lparr>Namespace = ''default'', Name = ''db'', Port = 5432\<rparr> None))
   \<and> range_inv \<lparr>table = Map.empty, minPort = 10000, maxPort = 10100\<rparr>
   \<and> injective \<lparr>table = Map.empty, minPort = 10000, maxPort = 10100\<rparr>
   \<and> \<not> range_inv (fst (snd (loadState \<lparr>table = Map.empty, minPort = 10000, maxPort = 10100\<rparr>
                        (Inr [(''5'', ''default/db:5432'')]) [])))
   \<and> \<not> injective (fst (snd (loadState \<lparr>table = Map.empty, minPort = 10000, maxPort = 10100\<rparr>
                        (Inr [(''10000'', ''default/db:5432''), (''10001'', ''default/db:5432'')]) [])))"
proof -
  let ?r = "\<lparr>Namespace = ''default'', Name = ''db'', Port = 5432\<rparr>"
  let ?m = "\<lparr>table = [10000 \<mapsto> ?r], minPort = 10000, maxPort = 10100\<rparr>"
  let ?empty = "\<lparr>table = Map.empty, minPort = 10000, maxPort = 10100\<rparr>"
  have h1: "range_inv ?m" by (simp add: range_inv_def in_range_def)
  have h2: "injective ?m" by (auto simp: injective_def split: if_splits)
  have add: "fst (Add ?m ?r None) = \<lparr>table = [10000 \<mapsto> ?r, 10001 \<mapsto> ?r], minPort = 10000, maxPort = 10100\<rparr>"
    by (simp add: Add_def Add_scan.simps)
  have c1: "\<not> injective (fst (Add ?m ?r None))"
  proof
    assume "injective (fst (Add ?m ?r None))"
    then have "(10000 :: int32) = 10001"
      unfolding add injective_def by (elim allE [of _ 10000] allE [of _ 10001] allE [of _ ?r]) simp
    then show False by simp
  qed
  have h3: "range_inv ?empty" by (simp add: range_inv_def)
  have h4: "injective ?empty" by (simp add: injective_def)
  have l1: "fst (snd (loadState ?empty (Inr [(''5'', ''default/db:5432'')]) []))
      = \<lparr>table = [5 \<mapsto> ?r], minPort = 10000, maxPort = 10100\<rparr>"
    by (simp add: loadState_def eval_parse)
  have c2: "\<not> range_inv (fst (snd (loadState ?empty (Inr [(''5'', ''default/db:5432'')]) [])))"
    unfolding l1 by (simp add: range_inv_def in_range_def)
  have l2: "fst (snd (loadState ?empty (Inr [(''10000'', ''default/db:5432''), (''10001'', ''default/db:5432'')]) []))
      = \<lparr>table = [10000 \<mapsto> ?r, 10001 \<mapsto> ?r], minPort = 10000, maxPort = 10100\<rparr>"
    by (simp add: loadState_def eval_parse)
  have c3: "\<not> injective (fst (snd (loadState ?empty (Inr [(''10000'', ''default/db:5432''), (''10001'', ''default/db:5432'')]) [])))"
  proof
    assume "injective (fst (snd (loadState ?empty (Inr [(''10000'', ''default/db:5432''), (''10001'', ''default/db:5432'')]) [])))"
    then have "(10000 :: int32) = 10001"
      unfolding l2 injective_def by (elim allE [of _ 10000] allE [of _ 10001] allE [of _ ?r]) simp
    then show False by simp
  qed
  from h1 h2 c1 h3 h4 c2 c3 show ?thesis by blast
qed

text \<open>
  C9, as the code has it. An entry \<open><name>:<svcPort>\<close> without a slash parses to the
  service of that name in the default namespace, and \<open>loadState\<close> stores it. An entry
  whose key or value does not parse is skipped: the result is the one for the document
  without it. \<open>loadState\<close> returns no error for any document that the lister returns,
  and it writes nothing to the log.
\<close>

theorem loadState_tolerant:
  "(CHR '':'' \<notin> set name \<and> CHR ''/'' \<notin> set name \<longrightarrow>
      parseServiceNamePort (name @ '':'' @ format_d port)
        = Inr \<lparr>Namespace = NamespaceDefault, Name = name, Port = port\<rparr>
      \<and> table (fst (snd (loadState m (Inr [(format_d p, name @ '':'' @ format_d port)]) lg))) p
        = Some \<lparr>Namespace = NamespaceDefault, Name = name, Port = port\<rparr>)
   \<and> ((\<exists>e. ParseInt k = Inl e) \<or> (\<exists>e. parseServiceNamePort v = Inl e) \<longrightarrow>
        loadState m (Inr (before @ (k, v) # after)) lg = loadState m (Inr (before @ after)) lg)
   \<and> fst (loadState m (Inr data) lg) = None
   \<and> snd (snd (loadState m got lg)) = lg"
proof (intro conjI impI)
  assume a: "CHR '':'' \<notin> set name \<and> CHR ''/'' \<notin> set name"
  then show l: "parseServiceNamePort (name @ '':'' @ format_d port)
        = Inr \<lparr>Namespace = NamespaceDefault, Name = name, Port = port\<rparr>"
    using parse_legacy [of name port] by simp
  then show "table (fst (snd (loadState m (Inr [(format_d p, name @ '':'' @ format_d port)]) lg))) p
        = Some \<lparr>Namespace = NamespaceDefault, Name = name, Port = port\<rparr>"
    by (simp add: loadState_eq ParseInt_format_d)
next
  assume "(\<exists>e. ParseInt k = Inl e) \<or> (\<exists>e. parseServiceNamePort v = Inl e)"
  then have "parsed_entries [(k, v)] = []" by (auto split: sum.splits)
  then have "parsed_entries (before @ (k, v) # after) = parsed_entries (before @ after)"
    using parsed_entries_append [of before "[(k, v)] @ after"]
      parsed_entries_append [of "[(k, v)]" after] parsed_entries_append [of before after]
    by simp
  then show "loadState m (Inr (before @ (k, v) # after)) lg = loadState m (Inr (before @ after)) lg"
    by (simp only: loadState_eq)
next
  show "fst (loadState m (Inr data) lg) = None" by (simp add: loadState_eq)
next
  show "snd (snd (loadState m got lg)) = lg"
    by (cases got) (simp_all add: loadState_eq, simp add: loadState_def)
qed

theorem loadState_tolerant_witness:
  "CHR '':'' \<notin> set ''db'' \<and> CHR ''/'' \<notin> set ''db''
   \<and> parseServiceNamePort (''db'' @ '':'' @ format_d 5432)
       = Inr \<lparr>Namespace = ''default'', Name = ''db'', Port = 5432\<rparr>
   \<and> ParseInt ''abc'' = Inl ErrSyntax
   \<and> parseServiceNamePort ''nocolon'' = Inl ErrParseFormat
   \<and> loadState \<lparr>table = Map.empty, minPort = 10000, maxPort = 10100\<rparr>
        (Inr ([(''10000'', ''db:5432'')] @ (''abc'', ''default/db:5432'') # [(''10001'', ''nocolon'')])) []
      = loadState \<lparr>table = Map.empty, minPort = 10000, maxPort = 10100\<rparr>
        (Inr ([(''10000'', ''db:5432'')] @ [(''10001'', ''nocolon'')])) []
   \<and> loadState \<lparr>table = Map.empty, minPort = 10000, maxPort = 10100\<rparr>
        (Inr ([(''10000'', ''db:5432'')] @ [] @ (''10001'', ''nocolon'') # [])) []
      = loadState \<lparr>table = Map.empty, minPort = 10000, maxPort = 10100\<rparr>
        (Inr ([(''10000'', ''db:5432'')] @ [])) []"
proof -
  let ?e = "\<lparr>table = Map.empty, minPort = 10000, maxPort = 10100\<rparr>"
  have h1: "CHR '':'' \<notin> set ''db'' \<and> CHR ''/'' \<notin> set ''db''" by simp
  have h2: "ParseInt ''abc'' = Inl ErrSyntax" by (simp add: eval_parse)
  have h3: "parseServiceNamePort ''nocolon'' = Inl ErrParseFormat"
    by (simp add: parseServiceNamePort_def)
  from h1 loadState_tolerant [where name = "''db''" and port = 5432 and p = 10000 and m = ?e
      and lg = "[]" and k = "''abc''" and v = "''default/db:5432''"
      and before = "[(''10000'', ''db:5432'')]" and after = "[(''10001'', ''nocolon'')]"
      and data = "[]" and got = "Inr []"] h2
  have c1: "parseServiceNamePort (''db'' @ '':'' @ format_d 5432)
       = Inr \<lparr>Namespace = ''default'', Name = ''db'', Port = 5432\<rparr>"
    and c2: "loadState ?e (Inr ([(''10000'', ''db:5432'')] @ (''abc'', ''default/db:5432'') # [(''10001'', ''nocolon'')])) []
      = loadState ?e (Inr ([(''10000'', ''db:5432'')] @ [(''10001'', ''nocolon'')])) []"
    by (simp_all add: NamespaceDefault_def)
  from h3 loadState_tolerant [where name = "''db''" and port = 5432 and p = 10000 and m = ?e
      and lg = "[]" and k = "''10001''" and v = "''nocolon''"
      and before = "[(''10000'', ''db:5432'')] @ []" and after = "[]"
      and data = "[]" and got = "Inr []"]
  have c3: "loadState ?e (Inr ([(''10000'', ''db:5432'')] @ [] @ (''10001'', ''nocolon'') # [])) []
      = loadState ?e (Inr ([(''10000'', ''db:5432'')] @ [])) []"
    by simp
  from h1 h2 h3 c1 c2 c3 show ?thesis by blast
qed

theorem loadState_tolerant_counterexample:
  "ParseInt ''abc'' = Inl ErrSyntax
   \<and> loadState \<lparr>table = Map.empty, minPort = 10000, maxPort = 10100\<rparr>
        (Inr [(''abc'', ''default/db:5432'')]) []
      = (None, \<lparr>table = Map.empty, minPort = 10000, maxPort = 10100\<rparr>, [])"
  by (simp add: loadState_def eval_parse)

subsection \<open>What a deploy does\<close>

lemma LogDeploy_fields [simp]:
  "puts (LogDeploy c name ip ok msg) = puts c"
  "lastConfiguration (LogDeploy c name ip ok msg) = lastConfiguration c"
  "readiness (LogDeploy c name ip ok msg) = readiness c"
  "tcpStateTable (LogDeploy c name ip ok msg) = tcpStateTable c"
  by (simp_all add: LogDeploy_def Let_def)

lemma deployToPod_effect:
  assumes "deployToPod c name ip config a = (r, c')"
  shows "lastConfiguration c' = lastConfiguration c \<and> readiness c' = readiness c
    \<and> (r = None \<longleftrightarrow> name \<noteq> [] \<and> ip \<noteq> [] \<and> accepted a)
    \<and> (\<exists>new. puts c' = puts c @ new \<and> set new \<subseteq> {(ip, config)}
          \<and> (name \<noteq> [] \<and> ip \<noteq> [] \<and> (\<exists>resp err. a = Do resp err) \<longrightarrow> new = [(ip, config)]))"
  using assms
  by (auto simp: deployToPod_def accepted_def Let_def split: if_splits attempt.splits option.splits prod.splits)

lemma Retry_effect:
  assumes "Retry c name ip config a as = (r, c')"
  shows "lastConfiguration c' = lastConfiguration c \<and> readiness c' = readiness c
    \<and> (r = None \<longrightarrow> name \<noteq> [] \<and> ip \<noteq> [] \<and> (\<exists>x \<in> set (a # as). accepted x))
    \<and> (\<exists>new. puts c' = puts c @ new \<and> set new \<subseteq> {(ip, config)}
          \<and> (r = None \<longrightarrow> (ip, config) \<in> set new)
          \<and> (name \<noteq> [] \<and> ip \<noteq> [] \<and> (\<exists>resp err. a = Do resp err) \<longrightarrow> (ip, config) \<in> set new))"
  using assms
proof (induction as arbitrary: c a r c')
  case Nil
  then have d: "deployToPod c name ip config a = (r, c')" by simp
  from deployToPod_effect [OF d] show ?case by (auto simp: accepted_def split: attempt.splits)
next
  case (Cons b bs)
  obtain r1 c1 where d: "deployToPod c name ip config a = (r1, c1)"
    by (cases "deployToPod c name ip config a")
  note e = deployToPod_effect [OF d]
  show ?case
  proof (cases r1)
    case None
    with d Cons.prems have "r = None" "c' = c1" by simp_all
    with e None show ?thesis by (auto simp: accepted_def split: attempt.splits)
  next
    case (Some err)
    with d Cons.prems have rec: "Retry c1 name ip config b bs = (r, c')" by simp
    from Cons.IH [OF rec] e show ?thesis by auto
  qed
qed

lemma deployToPods_effect:
  assumes "deployToPods c pods config http = (r, c')"
  shows "lastConfiguration c' = lastConfiguration c \<and> readiness c' = readiness c
    \<and> (\<exists>new. puts c' = puts c @ new
          \<and> set new \<subseteq> (\<lambda>pod. (pod_IP pod, config)) ` set pods
          \<and> (r = None \<longrightarrow>
                (\<forall>pod \<in> set pods. (\<exists>x \<in> set (fst (http pod) # snd (http pod)). accepted x)
                    \<and> (pod_IP pod, config) \<in> set new))
          \<and> (\<forall>pod \<in> set pods. pod_Name pod \<noteq> [] \<and> pod_IP pod \<noteq> []
                  \<and> (\<exists>resp err. fst (http pod) = Do resp err) \<longrightarrow> (pod_IP pod, config) \<in> set new))"
  using assms
proof (induction pods arbitrary: c r c')
  case Nil
  then show ?case by simp
next
  case (Cons pod pods)
  obtain r1 c1 where t: "Retry c (pod_Name pod) (pod_IP pod) config (fst (http pod)) (snd (http pod)) = (r1, c1)"
    by (cases "Retry c (pod_Name pod) (pod_IP pod) config (fst (http pod)) (snd (http pod))")
  obtain rs c2 where ps: "deployToPods c1 pods config http = (rs, c2)"
    by (cases "deployToPods c1 pods config http")
  from t ps Cons.prems have r: "r = (case r1 of Some e \<Rightarrow> Some e | None \<Rightarrow> rs)" and c': "c' = c2"
    by simp_all
  from Retry_effect [OF t] obtain n1 where
    f1: "lastConfiguration c1 = lastConfiguration c" "readiness c1 = readiness c" and
    ok1: "r1 = None \<longrightarrow> (\<exists>x \<in> set (fst (http pod) # snd (http pod)). accepted x)" and
    n1: "puts c1 = puts c @ n1" "set n1 \<subseteq> {(pod_IP pod, config)}"
      "r1 = None \<longrightarrow> (pod_IP pod, config) \<in> set n1"
      "pod_Name pod \<noteq> [] \<and> pod_IP pod \<noteq> [] \<and> (\<exists>resp err. fst (http pod) = Do resp err)
         \<longrightarrow> (pod_IP pod, config) \<in> set n1"
    by blast
  from Cons.IH [OF ps] obtain n2 where
    f2: "lastConfiguration c2 = lastConfiguration c1" "readiness c2 = readiness c1" and
    n2: "puts c2 = puts c1 @ n2" "set n2 \<subseteq> (\<lambda>pod. (pod_IP pod, config)) ` set pods"
      "rs = None \<longrightarrow> (\<forall>pod \<in> set pods. (\<exists>x \<in> set (fst (http pod) # snd (http pod)). accepted x)
                    \<and> (pod_IP pod, config) \<in> set n2)"
      "\<forall>pod \<in> set pods. pod_Name pod \<noteq> [] \<and> pod_IP pod \<noteq> []
                  \<and> (\<exists>resp err. fst (http pod) = Do resp err) \<longrightarrow> (pod_IP pod, config) \<in> set n2"
    by blast
  have rn: "r = None \<longleftrightarrow> r1 = None \<and> rs = None" using r by (cases r1) auto
  show ?case
  proof (intro conjI exI [of _ "n1 @ n2"])
    show "lastConfiguration c' = lastConfiguration c" using c' f1 f2 by simp
    show "readiness c' = readiness c" using c' f1 f2 by simp
    show "puts c' = puts c @ n1 @ n2" using c' n1 n2 by simp
    show "set (n1 @ n2) \<subseteq> (\<lambda>pod. (pod_IP pod, config)) ` set (pod # pods)"
      using n1(2) n2(2) by auto
    show "r = None \<longrightarrow> (\<forall>p \<in> set (pod # pods). (\<exists>x \<in> set (fst (http p) # snd (http p)). accepted x)
                    \<and> (pod_IP p, config) \<in> set (n1 @ n2))"
      using rn ok1 n1(3) n2(3) by auto
    show "\<forall>p \<in> set (pod # pods). pod_Name p \<noteq> [] \<and> pod_IP p \<noteq> []
                  \<and> (\<exists>resp err. fst (http p) = Do resp err) \<longrightarrow> (pod_IP p, config) \<in> set (n1 @ n2)"
      using n1(4) n2(4) by auto
  qed
qed

lemma unreadyPods_range_filter:
  "unreadyPods_range pods unreadyPods
     = unreadyPods @ filter (\<lambda>pod. status_range (pod_ContainerStatuses pod)) pods"
  by (induction pods arbitrary: unreadyPods) auto

lemma deployConfiguration_effect:
  assumes "deployConfiguration c podList http config = (r, c')"
  shows "lastConfiguration c' = lastConfiguration c \<and> readiness c' = readiness c
    \<and> (\<exists>new. puts c' = puts c @ new
          \<and> (\<forall>(ip, body) \<in> set new. body = config)
          \<and> (r = None \<longrightarrow>
                (\<exists>pods. podList = Inr pods \<and> pods \<noteq> []
                   \<and> (\<forall>pod \<in> set pods. (\<exists>x \<in> set (fst (http pod) # snd (http pod)). accepted x)
                         \<and> (pod_IP pod, config) \<in> set new)))
          \<and> (\<forall>pods. podList = Inr pods \<longrightarrow>
                (\<forall>pod \<in> set pods. pod_Name pod \<noteq> [] \<and> pod_IP pod \<noteq> []
                   \<and> (\<exists>resp err. fst (http pod) = Do resp err) \<longrightarrow> (pod_IP pod, config) \<in> set new)))"
proof (cases podList)
  case (Inl err)
  with assms show ?thesis by (auto simp: deployConfiguration_def)
next
  case (Inr pods)
  show ?thesis
  proof (cases "pods = []")
    case True
    with Inr assms show ?thesis by (auto simp: deployConfiguration_def)
  next
    case False
    obtain r1 c1 where d: "deployToPods c pods config http = (r1, c1)"
      by (cases "deployToPods c pods config http")
    with Inr False assms have rc: "c' = c1" "r = None \<longleftrightarrow> r1 = None"
      by (auto simp: deployConfiguration_def split: option.splits)
    from deployToPods_effect [OF d] obtain new where
      n: "lastConfiguration c1 = lastConfiguration c" "readiness c1 = readiness c"
         "puts c1 = puts c @ new" "set new \<subseteq> (\<lambda>pod. (pod_IP pod, config)) ` set pods"
         "r1 = None \<longrightarrow> (\<forall>pod \<in> set pods. (\<exists>x \<in> set (fst (http pod) # snd (http pod)). accepted x)
                    \<and> (pod_IP pod, config) \<in> set new)"
         "\<forall>pod \<in> set pods. pod_Name pod \<noteq> [] \<and> pod_IP pod \<noteq> []
                  \<and> (\<exists>resp err. fst (http pod) = Do resp err) \<longrightarrow> (pod_IP pod, config) \<in> set new"
      by blast
    have b: "\<forall>(ip, body) \<in> set new. body = config" using n(4) by auto
    show ?thesis
      using rc n(1,2,3,5,6) b Inr False by (intro conjI exI [of _ new]) auto
  qed
qed

lemma deployConfigurationToUnreadyNodes_effect:
  assumes "deployConfigurationToUnreadyNodes c podList http config = (r, c')"
  shows "lastConfiguration c' = lastConfiguration c \<and> readiness c' = readiness c
    \<and> (\<exists>new. puts c' = puts c @ new
          \<and> (\<forall>(ip, body) \<in> set new. body = config)
          \<and> (r = None \<longrightarrow>
                (\<exists>pods. podList = Inr pods \<and> pods \<noteq> []
                   \<and> (\<forall>pod \<in> set pods. status_range (pod_ContainerStatuses pod) \<longrightarrow>
                         (\<exists>x \<in> set (fst (http pod) # snd (http pod)). accepted x)
                         \<and> (pod_IP pod, config) \<in> set new))))"
proof (cases podList)
  case (Inl err)
  with assms show ?thesis by (auto simp: deployConfigurationToUnreadyNodes_def)
next
  case (Inr pods)
  show ?thesis
  proof (cases "pods = []")
    case True
    with Inr assms show ?thesis by (auto simp: deployConfigurationToUnreadyNodes_def)
  next
    case False
    let ?un = "filter (\<lambda>pod. status_range (pod_ContainerStatuses pod)) pods"
    obtain r1 c1 where d: "deployToPods c ?un config http = (r1, c1)"
      by (cases "deployToPods c ?un config http")
    with Inr False assms have rc: "c' = c1" "r = None \<longleftrightarrow> r1 = None"
      by (auto simp: deployConfigurationToUnreadyNodes_def unreadyPods_range_filter split: option.splits)
    from deployToPods_effect [OF d] obtain new where
      n: "lastConfiguration c1 = lastConfiguration c" "readiness c1 = readiness c"
         "puts c1 = puts c @ new" "set new \<subseteq> (\<lambda>pod. (pod_IP pod, config)) ` set ?un"
         "r1 = None \<longrightarrow> (\<forall>pod \<in> set ?un. (\<exists>x \<in> set (fst (http pod) # snd (http pod)). accepted x)
                    \<and> (pod_IP pod, config) \<in> set new)"
      by blast
    have b: "\<forall>(ip, body) \<in> set new. body = config" using n(4) by auto
    show ?thesis
      using rc n(1,2,3,5) b Inr False by (intro conjI exI [of _ new]) auto
  qed
qed

lemma Run_select_readiness:
  assumes "Run_select c ev = Next cy c'"
  shows "readiness c' \<longleftrightarrow> readiness c \<or> cy = Deployed"
proof (cases ev)
  case StopCh
  with assms show ?thesis by (simp add: Run_select_def)
next
  case (ConfigRefresh message built podList http)
  show ?thesis
  proof (cases built)
    case (Inl e)
    with ConfigRefresh assms show ?thesis by (simp add: Run_select_def)
  next
    case (Inr conf)
    let ?c1 = "c\<lparr>lastConfiguration := Ptr conf\<rparr>"
    obtain r c2 where d: "deployConfiguration ?c1 podList http conf = (r, c2)"
      by (cases "deployConfiguration ?c1 podList http conf")
    from deployConfiguration_effect [OF d] have "readiness c2 = readiness c" by simp
    with ConfigRefresh Inr assms d show ?thesis
      by (cases r) (auto simp: Run_select_def EnableReadiness_def split: if_splits)
  qed
next
  case (TimerC podList http)
  show ?thesis
  proof (cases "lastConfiguration c")
    case NilValue
    with TimerC assms show ?thesis by (simp add: Run_select_def)
  next
    case (Ptr conf)
    obtain r c2 where d: "deployConfigurationToUnreadyNodes c podList http conf = (r, c2)"
      by (cases "deployConfigurationToUnreadyNodes c podList http conf")
    from deployConfigurationToUnreadyNodes_effect [OF d] have "readiness c2 = readiness c" by simp
    with TimerC Ptr assms d show ?thesis
      by (cases r) (auto simp: Run_select_def EnableReadiness_def)
  qed
qed

lemma Run_for_readiness:
  assumes "Run_for c evs cycles = (Waiting c', cycles')"
  shows "\<exists>new. cycles' = cycles @ new \<and> (readiness c' \<longleftrightarrow> readiness c \<or> Deployed \<in> set new)"
  using assms
proof (induction evs arbitrary: c cycles)
  case Nil
  then show ?case by simp
next
  case (Cons ev evs)
  from Cons.prems obtain cy c1 where s: "Run_select c ev = Next cy c1"
    by (cases "Run_select c ev") auto
  with Cons.prems have "Run_for c1 evs (cycles @ [cy]) = (Waiting c', cycles')" by simp
  from Cons.IH [OF this] obtain new where
    n: "cycles' = (cycles @ [cy]) @ new" "readiness c' \<longleftrightarrow> readiness c1 \<or> Deployed \<in> set new"
    by blast
  from Run_select_readiness [OF s] n show ?case
    by (intro exI [of _ "cy # new"]) auto
qed

lemma createMeshService_range_fields:
  "readiness (snd (createMeshService_range mode service orders saves idx sps ports c)) = readiness c
   \<and> lastConfiguration (snd (createMeshService_range mode service orders saves idx sps ports c)) = lastConfiguration c
   \<and> puts (snd (createMeshService_range mode service orders saves idx sps ports c)) = puts c"
  by (induction mode service orders saves idx sps ports c rule: createMeshService_range.induct)
     (auto split: prod.splits sum.splits)

lemma createMeshService_fields:
  "readiness (snd (createMeshService c service got orders saves createErr)) = readiness c
   \<and> lastConfiguration (snd (createMeshService c service got orders saves createErr)) = lastConfiguration c
   \<and> puts (snd (createMeshService c service got orders saves createErr)) = puts c"
proof (cases got)
  case (NotFound e)
  let ?mode = "if (case svc_Annotations service AnnotationServiceType of None \<Rightarrow> [] | Some v \<Rightarrow> v) = []
      then defaultMode c else (case svc_Annotations service AnnotationServiceType of None \<Rightarrow> [] | Some v \<Rightarrow> v)"
  obtain ports c1 where r: "createMeshService_range ?mode service orders saves 0 (svc_Ports service) [] c = (ports, c1)"
    by (cases "createMeshService_range ?mode service orders saves 0 (svc_Ports service) [] c")
  from createMeshService_range_fields [of ?mode service orders saves 0 "svc_Ports service" "[]" c] r
  have "readiness c1 = readiness c \<and> lastConfiguration c1 = lastConfiguration c \<and> puts c1 = puts c"
    by simp
  with NotFound r show ?thesis
    by (cases createErr) (simp_all add: createMeshService_def Let_def)
qed (simp_all add: createMeshService_def)

lemma createMeshServices_range_fields:
  "readiness (snd (createMeshServices_range c svcs)) = readiness c
   \<and> lastConfiguration (snd (createMeshServices_range c svcs)) = lastConfiguration c
   \<and> puts (snd (createMeshServices_range c svcs)) = puts c"
proof (induction svcs arbitrary: c)
  case Nil
  then show ?case by simp
next
  case (Cons sa svcs)
  obtain service an where sa: "sa = (service, an)" by (cases sa)
  note f = createMeshService_fields [of c service "an_got_again an" "an_orders an" "an_saves an" "an_createErr an"]
  show ?case
    using Cons.IH f unfolding sa
    by (cases "createMeshService c service (an_got_again an) (an_orders an) (an_saves an) (an_createErr an)")
       (auto split: lookup.splits option.splits)
qed

lemma createMeshServices_fields:
  "readiness (snd (createMeshServices c sel listed)) = readiness c
   \<and> lastConfiguration (snd (createMeshServices c sel listed)) = lastConfiguration c
   \<and> puts (snd (createMeshServices c sel listed)) = puts c"
  using createMeshServices_range_fields
  by (auto simp: createMeshServices_def split: option.splits sum.splits)

lemma Run_cases:
  "(\<exists>err. cfgMap = Inl err \<and> Run c cfgMap sel listed evs = (Returned (Some (ErrLoadState err)), []))
   \<or> (\<exists>data c2. cfgMap = Inr data \<and> Run c cfgMap sel listed evs = Run_for c2 evs []
        \<and> readiness c2 = readiness c \<and> lastConfiguration c2 = lastConfiguration c \<and> puts c2 = puts c)"
proof (cases cfgMap)
  case (Inl err)
  then show ?thesis by (simp add: Run_def NewTCPPortMapping_def loadState_def)
next
  case (Inr data)
  obtain t lg' where l: "loadState_range data Map.empty (logged c) = (t, lg')"
    by (cases "loadState_range data Map.empty (logged c)")
  define m where "m = (if length data > 0 then \<lparr>table = t, minPort = 10000, maxPort = 10100\<rparr>
      else \<lparr>table = Map.empty, minPort = 10000, maxPort = 10100\<rparr>)"
  define lg where "lg = (if length data > 0 then lg' else logged c)"
  have n: "NewTCPPortMapping cfgMap 10000 10100 (logged c) = (Inr m, lg)"
    using Inr l by (simp add: NewTCPPortMapping_def loadState_def m_def lg_def)
  let ?c1 = "c\<lparr>tcpStateTable := m, logged := lg\<rparr>"
  obtain r c' where cm: "createMeshServices ?c1 sel listed = (r, c')"
    by (cases "createMeshServices ?c1 sel listed")
  from createMeshServices_fields [of ?c1 sel listed] cm
  have f: "readiness c' = readiness c" "lastConfiguration c' = lastConfiguration c" "puts c' = puts c"
    by simp_all
  show ?thesis
    using Inr n cm f by (cases r) (auto simp: Run_def Let_def)
qed

lemmas run_eval = Run_def NewTCPPortMapping_def loadState_def createMeshServices_def
  Run_select_def deployConfiguration_def deployConfigurationToUnreadyNodes_def deployToPod_def
  LogDeploy_def EnableReadiness_def always_def NewMeshController_def ConfigMessageChanForce_def
  Let_def

subsection \<open>When a deploy returns nil, and what the loop logs\<close>

lemma LogDeploy_logged [simp]: "logged (LogDeploy c name ip ok msg) = logged c"
  by (simp add: LogDeploy_def Let_def)

lemma deployToPod_logged: "logged (snd (deployToPod c name ip config a)) = logged c"
  by (auto simp: deployToPod_def Let_def split: attempt.splits option.splits prod.splits)

lemma Retry_logged: "logged (snd (Retry c name ip config a as)) = logged c"
proof (induction as arbitrary: c a)
  case Nil
  then show ?case by (simp add: deployToPod_logged)
next
  case (Cons b bs)
  obtain r c1 where d: "deployToPod c name ip config a = (r, c1)"
    by (cases "deployToPod c name ip config a")
  with deployToPod_logged [of c name ip config a] have "logged c1 = logged c" by simp
  with d Cons.IH [of c1 b] show ?case by (cases r) simp_all
qed

lemma deployToPods_logged: "logged (snd (deployToPods c pods config http)) = logged c"
proof (induction pods arbitrary: c)
  case Nil
  then show ?case by simp
next
  case (Cons pod pods)
  obtain r c1 where t: "Retry c (pod_Name pod) (pod_IP pod) config (fst (http pod)) (snd (http pod)) = (r, c1)"
    by (cases "Retry c (pod_Name pod) (pod_IP pod) config (fst (http pod)) (snd (http pod))")
  with Retry_logged [of c "pod_Name pod" "pod_IP pod" config "fst (http pod)" "snd (http pod)"]
  have l1: "logged c1 = logged c" by simp
  obtain rs c2 where ps: "deployToPods c1 pods config http = (rs, c2)"
    by (cases "deployToPods c1 pods config http")
  with Cons.IH [of c1] l1 have "logged c2 = logged c" by simp
  with t ps show ?case by simp
qed

lemma deployConfiguration_logged:
  "logged (snd (deployConfiguration c podList http config)) = logged c"
proof (cases podList)
  case (Inl e)
  then show ?thesis by (simp add: deployConfiguration_def)
next
  case (Inr pods)
  obtain r c1 where d: "deployToPods c pods config http = (r, c1)"
    by (cases "deployToPods c pods config http")
  with deployToPods_logged [of c pods config http] have "logged c1 = logged c" by simp
  with Inr d show ?thesis by (cases r) (auto simp: deployConfiguration_def)
qed

lemma deployConfigurationToUnreadyNodes_logged:
  "logged (snd (deployConfigurationToUnreadyNodes c podList http config)) = logged c"
proof (cases podList)
  case (Inl e)
  then show ?thesis by (simp add: deployConfigurationToUnreadyNodes_def)
next
  case (Inr pods)
  let ?un = "unreadyPods_range pods []"
  obtain r c1 where d: "deployToPods c ?un config http = (r, c1)"
    by (cases "deployToPods c ?un config http")
  with deployToPods_logged [of c ?un config http] have "logged c1 = logged c" by simp
  with Inr d show ?thesis by (cases r) (auto simp: deployConfigurationToUnreadyNodes_def)
qed

lemma Retry_ok_iff:
  "fst (Retry c name ip config a as) = None
     \<longleftrightarrow> name \<noteq> [] \<and> ip \<noteq> [] \<and> list_ex accepted (a # as)"
proof (induction as arbitrary: c a)
  case Nil
  obtain r c1 where d: "deployToPod c name ip config a = (r, c1)"
    by (cases "deployToPod c name ip config a")
  from deployToPod_effect [OF d] d show ?case by simp
next
  case (Cons b bs)
  obtain r c1 where d: "deployToPod c name ip config a = (r, c1)"
    by (cases "deployToPod c name ip config a")
  from deployToPod_effect [OF d] have r: "r = None \<longleftrightarrow> name \<noteq> [] \<and> ip \<noteq> [] \<and> accepted a"
    by simp
  show ?case
  proof (cases r)
    case None
    with d r show ?thesis by simp
  next
    case (Some e)
    with d r Cons.IH [of c1 b] show ?thesis by auto
  qed
qed

lemma deployToPods_ok_iff:
  "fst (deployToPods c pods config http) = None \<longleftrightarrow> (\<forall>pod \<in> set pods. pushed_ok http pod)"
proof (induction pods arbitrary: c)
  case Nil
  then show ?case by simp
next
  case (Cons pod pods)
  obtain r c1 where t: "Retry c (pod_Name pod) (pod_IP pod) config (fst (http pod)) (snd (http pod)) = (r, c1)"
    by (cases "Retry c (pod_Name pod) (pod_IP pod) config (fst (http pod)) (snd (http pod))")
  with Retry_ok_iff [of c "pod_Name pod" "pod_IP pod" config "fst (http pod)" "snd (http pod)"]
  have r: "r = None \<longleftrightarrow> pushed_ok http pod" by (simp add: pushed_ok_def)
  obtain rs c2 where ps: "deployToPods c1 pods config http = (rs, c2)"
    by (cases "deployToPods c1 pods config http")
  with Cons.IH [of c1] have rs: "rs = None \<longleftrightarrow> (\<forall>pod \<in> set pods. pushed_ok http pod)" by simp
  from t ps r rs show ?case by (cases r) auto
qed

lemma deployConfiguration_ok_iff:
  "fst (deployConfiguration c podList http config) = None
     \<longleftrightarrow> (\<exists>pods. podList = Inr pods \<and> pods \<noteq> [] \<and> (\<forall>pod \<in> set pods. pushed_ok http pod))"
proof (cases podList)
  case (Inl e)
  then show ?thesis by (simp add: deployConfiguration_def)
next
  case (Inr pods)
  obtain r c1 where d: "deployToPods c pods config http = (r, c1)"
    by (cases "deployToPods c pods config http")
  with deployToPods_ok_iff [of c pods config http]
  have "r = None \<longleftrightarrow> (\<forall>pod \<in> set pods. pushed_ok http pod)" by simp
  with Inr d show ?thesis by (cases r) (auto simp: deployConfiguration_def)
qed

lemma deployConfigurationToUnreadyNodes_ok_iff:
  "fst (deployConfigurationToUnreadyNodes c podList http config) = None
     \<longleftrightarrow> (\<exists>pods. podList = Inr pods \<and> pods \<noteq> []
            \<and> (\<forall>pod \<in> set pods. status_range (pod_ContainerStatuses pod) \<longrightarrow> pushed_ok http pod))"
proof (cases podList)
  case (Inl e)
  then show ?thesis by (simp add: deployConfigurationToUnreadyNodes_def)
next
  case (Inr pods)
  let ?un = "filter (\<lambda>pod. status_range (pod_ContainerStatuses pod)) pods"
  obtain r c1 where d: "deployToPods c ?un config http = (r, c1)"
    by (cases "deployToPods c ?un config http")
  with deployToPods_ok_iff [of c ?un config http]
  have "r = None \<longleftrightarrow> (\<forall>pod \<in> set ?un. pushed_ok http pod)" by simp
  with Inr d show ?thesis
    by (cases r) (auto simp: deployConfigurationToUnreadyNodes_def unreadyPods_range_filter)
qed

lemma deployConfigurationToUnreadyNodes_none_unready:
  assumes "pods \<noteq> []" and "\<forall>pod \<in> set pods. \<not> status_range (pod_ContainerStatuses pod)"
  shows "deployConfigurationToUnreadyNodes c (Inr pods) http config = (None, c)"
proof -
  have "filter (\<lambda>pod. status_range (pod_ContainerStatuses pod)) pods = []"
    using assms(2) by (simp add: filter_empty_conv)
  with assms(1) show ?thesis
    by (simp add: deployConfigurationToUnreadyNodes_def unreadyPods_range_filter)
qed

lemma DeepEqual_iff: "DeepEqual v conf \<longleftrightarrow> v = Ptr conf"
  by (cases v) auto

lemma refresh_skips:
  "message \<noteq> ConfigMessageChanForce \<Longrightarrow> lastConfiguration c = Ptr conf \<Longrightarrow>
   Run_select c (ConfigRefresh message (Inr conf) podList http) = Next NoDeploy c"
  by (simp add: Run_select_def)

lemma refresh_deploys:
  assumes go: "message = ConfigMessageChanForce \<or> lastConfiguration c \<noteq> Ptr conf"
  shows "\<exists>c2. deployConfiguration (c\<lparr>lastConfiguration := Ptr conf\<rparr>) podList http conf
            = (fst (deployConfiguration (c\<lparr>lastConfiguration := Ptr conf\<rparr>) podList http conf), c2)
        \<and> lastConfiguration c2 = Ptr conf
        \<and> Run_select c (ConfigRefresh message (Inr conf) podList http)
            = (case fst (deployConfiguration (c\<lparr>lastConfiguration := Ptr conf\<rparr>) podList http conf) of
                 Some e \<Rightarrow> Next (DeployFailed e) c2
               | None \<Rightarrow> Next Deployed (EnableReadiness c2))"
proof -
  let ?c1 = "c\<lparr>lastConfiguration := Ptr conf\<rparr>"
  obtain r c2 where d: "deployConfiguration ?c1 podList http conf = (r, c2)"
    by (cases "deployConfiguration ?c1 podList http conf")
  from deployConfiguration_effect [OF d] have "lastConfiguration c2 = Ptr conf" by simp
  with go d show ?thesis
    by (cases r) (auto simp: Run_select_def DeepEqual_iff)
qed

lemma timer_deploys:
  assumes "lastConfiguration c = Ptr conf"
  shows "Run_select c (TimerC podList http)
     = (case fst (deployConfigurationToUnreadyNodes c podList http conf) of
          Some e \<Rightarrow> Next (DeployFailed e) (snd (deployConfigurationToUnreadyNodes c podList http conf))
        | None \<Rightarrow> Next Deployed (EnableReadiness (snd (deployConfigurationToUnreadyNodes c podList http conf))))"
  using assms
  by (cases "deployConfigurationToUnreadyNodes c podList http conf")
     (auto simp: Run_select_def split: option.splits)

lemma Run_select_logged:
  assumes "Run_select c ev = Next cy c'"
  shows "logged c' = logged c"
proof (cases ev)
  case StopCh
  with assms show ?thesis by (simp add: Run_select_def)
next
  case (ConfigRefresh message built podList http)
  show ?thesis
  proof (cases built)
    case (Inl e)
    with assms ConfigRefresh show ?thesis by (simp add: Run_select_def)
  next
    case (Inr conf)
    let ?c1 = "c\<lparr>lastConfiguration := Ptr conf\<rparr>"
    obtain r c2 where d: "deployConfiguration ?c1 podList http conf = (r, c2)"
      by (cases "deployConfiguration ?c1 podList http conf")
    from deployConfiguration_logged [of ?c1 podList http conf] d
    have "logged c2 = logged c" by simp
    with assms ConfigRefresh Inr d show ?thesis
      by (cases r) (auto simp: Run_select_def EnableReadiness_def split: if_splits)
  qed
next
  case (TimerC podList http)
  show ?thesis
  proof (cases "lastConfiguration c")
    case NilValue
    with assms TimerC show ?thesis by (simp add: Run_select_def)
  next
    case (Ptr conf)
    obtain r c2 where d: "deployConfigurationToUnreadyNodes c podList http conf = (r, c2)"
      by (cases "deployConfigurationToUnreadyNodes c podList http conf")
    from deployConfigurationToUnreadyNodes_logged [of c podList http conf] d
    have "logged c2 = logged c" by simp
    with assms TimerC Ptr d show ?thesis
      by (cases r) (auto simp: Run_select_def EnableReadiness_def)
  qed
qed

lemma NewTCPPortMapping_loads:
  "\<exists>m. NewTCPPortMapping (Inr data) minP maxP lg = (Inr m, lg)"
  by (simp add: NewTCPPortMapping_def loadState_eq)

subsection \<open>The loop's claims\<close>

text \<open>
  C2, as the code has it. The configuration that a refresh is compared with is the one
  held in \<open>lastConfiguration\<close>: it is stored before its deploy is attempted and stays
  stored when the deploy fails, so it need not have reached any pod. On a refresh signal
  for which \<open>BuildConfig\<close> returns a configuration: when the message is not the forced
  one and the configuration is the stored one, the pass changes nothing (the stored
  configuration stays, no request is sent); when the message is the forced one or the
  configuration is not the stored one (as when nothing is stored), the new configuration
  is stored and \<open>deployConfiguration\<close> is called with it: every request sent in the pass
  carries the new configuration, and every listed pod with a name and an IP whose push
  gets as far as \<open>client.Do\<close> is sent one. Whatever that deploy returned, a refresh that
  follows with the same configuration and a message other than the forced one is
  suppressed.
\<close>

theorem refresh_cycle:
  "(message \<noteq> ConfigMessageChanForce \<and> lastConfiguration c = Ptr conf \<longrightarrow>
      Run_select c (ConfigRefresh message (Inr conf) podList http) = Next NoDeploy c)
   \<and> (message = ConfigMessageChanForce \<or> lastConfiguration c \<noteq> Ptr conf \<longrightarrow>
        (\<exists>cy c'. Run_select c (ConfigRefresh message (Inr conf) podList http) = Next cy c'
           \<and> cy \<noteq> NoDeploy
           \<and> lastConfiguration c' = Ptr conf
           \<and> (\<exists>new. puts c' = puts c @ new
                 \<and> (\<forall>(ip, body) \<in> set new. body = conf)
                 \<and> (\<forall>pods. podList = Inr pods \<longrightarrow>
                       (\<forall>pod \<in> set pods. pod_Name pod \<noteq> [] \<and> pod_IP pod \<noteq> []
                          \<and> (\<exists>resp err. fst (http pod) = Do resp err)
                          \<longrightarrow> (pod_IP pod, conf) \<in> set new)))
           \<and> (\<forall>message' podList' http'. message' \<noteq> ConfigMessageChanForce \<longrightarrow>
                 Run_select c' (ConfigRefresh message' (Inr conf) podList' http') = Next NoDeploy c')))"
proof (intro conjI impI)
  assume "message \<noteq> ConfigMessageChanForce \<and> lastConfiguration c = Ptr conf"
  then show "Run_select c (ConfigRefresh message (Inr conf) podList http) = Next NoDeploy c"
    by (simp add: refresh_skips)
next
  assume go: "message = ConfigMessageChanForce \<or> lastConfiguration c \<noteq> Ptr conf"
  let ?c1 = "c\<lparr>lastConfiguration := Ptr conf\<rparr>"
  let ?r = "fst (deployConfiguration ?c1 podList http conf)"
  from refresh_deploys [OF go] obtain c2 where
    d: "deployConfiguration ?c1 podList http conf = (?r, c2)" and
    l: "lastConfiguration c2 = Ptr conf" and
    s: "Run_select c (ConfigRefresh message (Inr conf) podList http)
          = (case ?r of Some e \<Rightarrow> Next (DeployFailed e) c2 | None \<Rightarrow> Next Deployed (EnableReadiness c2))"
    by blast
  from deployConfiguration_effect [OF d] obtain new where
    n: "puts c2 = puts c @ new" "\<forall>(ip, body) \<in> set new. body = conf"
       "\<forall>pods. podList = Inr pods \<longrightarrow>
                (\<forall>pod \<in> set pods. pod_Name pod \<noteq> [] \<and> pod_IP pod \<noteq> []
                   \<and> (\<exists>resp err. fst (http pod) = Do resp err) \<longrightarrow> (pod_IP pod, conf) \<in> set new)"
    by auto
  define c' where "c' = (case ?r of Some e \<Rightarrow> c2 | None \<Rightarrow> EnableReadiness c2)"
  define cy where "cy = (case ?r of Some e \<Rightarrow> DeployFailed e | None \<Rightarrow> Deployed)"
  have step: "Run_select c (ConfigRefresh message (Inr conf) podList http) = Next cy c'"
    using s by (cases ?r) (simp_all add: c'_def cy_def)
  have cy: "cy \<noteq> NoDeploy" by (cases ?r) (simp_all add: cy_def)
  have l': "lastConfiguration c' = Ptr conf"
    using l by (cases ?r) (simp_all add: c'_def EnableReadiness_def)
  have p': "puts c' = puts c @ new"
    using n(1) by (cases ?r) (simp_all add: c'_def EnableReadiness_def)
  have again: "\<forall>message' podList' http'. message' \<noteq> ConfigMessageChanForce \<longrightarrow>
      Run_select c' (ConfigRefresh message' (Inr conf) podList' http') = Next NoDeploy c'"
    using l' by (simp add: refresh_skips)
  show "\<exists>cy c'. Run_select c (ConfigRefresh message (Inr conf) podList http) = Next cy c'
           \<and> cy \<noteq> NoDeploy
           \<and> lastConfiguration c' = Ptr conf
           \<and> (\<exists>new. puts c' = puts c @ new
                 \<and> (\<forall>(ip, body) \<in> set new. body = conf)
                 \<and> (\<forall>pods. podList = Inr pods \<longrightarrow>
                       (\<forall>pod \<in> set pods. pod_Name pod \<noteq> [] \<and> pod_IP pod \<noteq> []
                          \<and> (\<exists>resp err. fst (http pod) = Do resp err)
                          \<longrightarrow> (pod_IP pod, conf) \<in> set new)))
           \<and> (\<forall>message' podList' http'. message' \<noteq> ConfigMessageChanForce \<longrightarrow>
                 Run_select c' (ConfigRefresh message' (Inr conf) podList' http') = Next NoDeploy c')"
    using step cy l' p' n(2,3) again by blast
qed

theorem refresh_cycle_witness:
  "''normal'' \<noteq> ConfigMessageChanForce
   \<and> lastConfiguration ((NewMeshController ''http'' ''maesh'' :: nat Controller)\<lparr>lastConfiguration := Ptr (Some 7)\<rparr>)
       = Ptr (Some 7)
   \<and> Run_select ((NewMeshController ''http'' ''maesh'' :: nat Controller)\<lparr>lastConfiguration := Ptr (Some 7)\<rparr>)
        (ConfigRefresh ''normal'' (Inr (Some 7))
           (Inr [\<lparr>pod_Name = ''maesh-mesh-1'', pod_IP = ''10.0.0.1'', pod_ContainerStatuses = [True]\<rparr>])
           (always (Do (Some (None, 200)) None)))
       = Next NoDeploy ((NewMeshController ''http'' ''maesh'' :: nat Controller)\<lparr>lastConfiguration := Ptr (Some 7)\<rparr>)
   \<and> lastConfiguration ((NewMeshController ''http'' ''maesh'' :: nat Controller)\<lparr>lastConfiguration := Ptr (Some 7)\<rparr>)
       \<noteq> Ptr (Some 8)
   \<and> Run_select ((NewMeshController ''http'' ''maesh'' :: nat Controller)\<lparr>lastConfiguration := Ptr (Some 7)\<rparr>)
        (ConfigRefresh ''normal'' (Inr (Some 8))
           (Inr [\<lparr>pod_Name = ''maesh-mesh-1'', pod_IP = ''10.0.0.1'', pod_ContainerStatuses = [True]\<rparr>])
           (always (Do (Some (None, 200)) None)))
       = Next Deployed
           \<lparr>defaultMode = ''http'', meshNamespace = ''maesh'',
             tcpStateTable = \<lparr>table = Map.empty, minPort = 0, maxPort = 0\<rparr>,
             lastConfiguration = Ptr (Some 8), readiness = True,
             deployLog = [\<lparr>dr_Name = ''maesh-mesh-1'', dr_IP = ''10.0.0.1'', dr_Success = True, dr_Message = []\<rparr>],
             puts = [(''10.0.0.1'', Some 8)], created = [], logged = []\<rparr>
   \<and> ''force'' = ConfigMessageChanForce
   \<and> Run_select ((NewMeshController ''http'' ''maesh'' :: nat Controller)\<lparr>lastConfiguration := Ptr (Some 7)\<rparr>)
        (ConfigRefresh ''force'' (Inr (Some 7))
           (Inr [\<lparr>pod_Name = ''maesh-mesh-1'', pod_IP = ''10.0.0.1'', pod_ContainerStatuses = [True]\<rparr>])
           (always (Do (Some (None, 200)) None)))
       = Next Deployed
           \<lparr>defaultMode = ''http'', meshNamespace = ''maesh'',
             tcpStateTable = \<lparr>table = Map.empty, minPort = 0, maxPort = 0\<rparr>,
             lastConfiguration = Ptr (Some 7), readiness = True,
             deployLog = [\<lparr>dr_Name = ''maesh-mesh-1'', dr_IP = ''10.0.0.1'', dr_Success = True, dr_Message = []\<rparr>],
             puts = [(''10.0.0.1'', Some 7)], created = [], logged = []\<rparr>
   \<and> lastConfiguration (NewMeshController ''http'' ''maesh'' :: nat Controller) \<noteq> Ptr None
   \<and> Run_select (NewMeshController ''http'' ''maesh'' :: nat Controller)
        (ConfigRefresh ''normal'' (Inr None)
           (Inr [\<lparr>pod_Name = ''maesh-mesh-1'', pod_IP = ''10.0.0.1'', pod_ContainerStatuses = [True]\<rparr>])
           (always (Do (Some (None, 503)) None)))
       = Next (DeployFailed (ErrDeploy (ErrStatus 503)))
           \<lparr>defaultMode = ''http'', meshNamespace = ''maesh'',
             tcpStateTable = \<lparr>table = Map.empty, minPort = 0, maxPort = 0\<rparr>,
             lastConfiguration = Ptr None, readiness = False,
             deployLog = [\<lparr>dr_Name = ''maesh-mesh-1'', dr_IP = ''10.0.0.1'', dr_Success = False,
                dr_Message = ''received non-ok response code''\<rparr>],
             puts = [(''10.0.0.1'', None)], created = [], logged = []\<rparr>"
  using refresh_cycle [where message = "''normal''" and conf = "Some (7::nat)"
      and c = "(NewMeshController ''http'' ''maesh'' :: nat Controller)\<lparr>lastConfiguration := Ptr (Some 7)\<rparr>"
      and podList = "Inr [\<lparr>pod_Name = ''maesh-mesh-1'', pod_IP = ''10.0.0.1'', pod_ContainerStatuses = [True]\<rparr>]"
      and http = "always (Do (Some (None, 200)) None)"]
    refresh_cycle [where message = "''normal''" and conf = "Some (8::nat)"
      and c = "(NewMeshController ''http'' ''maesh'' :: nat Controller)\<lparr>lastConfiguration := Ptr (Some 7)\<rparr>"
      and podList = "Inr [\<lparr>pod_Name = ''maesh-mesh-1'', pod_IP = ''10.0.0.1'', pod_ContainerStatuses = [True]\<rparr>]"
      and http = "always (Do (Some (None, 200)) None)"]
  by (simp add: run_eval)

theorem refresh_cycle_counterexample:
  "Run (NewMeshController ''http'' ''maesh'' :: nat Controller) (Inr []) None (Inr [])
     [ConfigRefresh ''normal'' (Inr (Some 7)) (Inr []) (always (Do (Some (None, 200)) None)),
      ConfigRefresh ''normal'' (Inr (Some 7))
        (Inr [\<lparr>pod_Name = ''maesh-mesh-1'', pod_IP = ''10.0.0.1'', pod_ContainerStatuses = [True]\<rparr>])
        (always (Do (Some (None, 200)) None))]
    = (Waiting
         \<lparr>defaultMode = ''http'', meshNamespace = ''maesh'',
           tcpStateTable = \<lparr>table = Map.empty, minPort = 10000, maxPort = 10100\<rparr>,
           lastConfiguration = Ptr (Some 7), readiness = False, deployLog = [],
           puts = [], created = [], logged = []\<rparr>,
       [DeployFailed ErrNoPods, NoDeploy])"
  by (simp add: run_eval)

text \<open>
  C7, as the code has it. A pass changes readiness only by enabling it, and enables it
  exactly when its deploy call returned nil. A refresh that deploys (its message is the
  forced one, or its configuration is not the stored one) enables readiness exactly when
  the pod lister answers with at least one pod and every listed pod takes the
  configuration (\<open>pushed_ok\<close>: it has a name and an IP and one of its attempts is
  accepted); then every listed pod was sent the configuration. A tick with a
  configuration stored enables readiness exactly when the lister answers with at least
  one pod and every listed pod that has a container that is not ready takes the stored
  configuration; the other pods are sent nothing, so a tick that lists pods none of
  which has an unready container enables readiness without any request. A pass whose
  deploy call fails, as it does when no pod is listed, leaves readiness as it was. So
  after any events, readiness is on exactly when some cycle before ended with a deploy
  call that returned nil.
\<close>

theorem readiness_after_deploy:
  "(Run_select c ev = Next cy c' \<longrightarrow> (readiness c' \<longleftrightarrow> readiness c \<or> cy = Deployed))
   \<and> (message = ConfigMessageChanForce \<or> lastConfiguration c \<noteq> Ptr conf \<longrightarrow>
        ((\<exists>c2. Run_select c (ConfigRefresh message (Inr conf) podList http) = Next Deployed c2)
           \<longleftrightarrow> (\<exists>pods. podList = Inr pods \<and> pods \<noteq> []
                  \<and> (\<forall>pod \<in> set pods. pushed_ok http pod))))
   \<and> (Run_select c (ConfigRefresh message built podList http) = Next Deployed c' \<longrightarrow>
        (\<exists>conf pods. built = Inr conf \<and> podList = Inr pods \<and> pods \<noteq> []
           \<and> (\<forall>pod \<in> set pods. pushed_ok http pod \<and> (pod_IP pod, conf) \<in> set (puts c'))))
   \<and> (lastConfiguration c = Ptr conf \<longrightarrow>
        ((\<exists>c2. Run_select c (TimerC podList http) = Next Deployed c2)
           \<longleftrightarrow> (\<exists>pods. podList = Inr pods \<and> pods \<noteq> []
                  \<and> (\<forall>pod \<in> set pods. status_range (pod_ContainerStatuses pod) \<longrightarrow>
                        pushed_ok http pod))))
   \<and> (Run_select c (TimerC podList http) = Next Deployed c' \<longrightarrow>
        (\<exists>conf pods. lastConfiguration c = Ptr conf \<and> podList = Inr pods \<and> pods \<noteq> []
           \<and> (\<forall>pod \<in> set pods. status_range (pod_ContainerStatuses pod) \<longrightarrow>
                 pushed_ok http pod \<and> (pod_IP pod, conf) \<in> set (puts c'))))
   \<and> (lastConfiguration c = Ptr conf \<and> pods \<noteq> []
        \<and> (\<forall>pod \<in> set pods. \<not> status_range (pod_ContainerStatuses pod)) \<longrightarrow>
        Run_select c (TimerC (Inr pods) http) = Next Deployed (EnableReadiness c))
   \<and> (Run_for c evs cycles = (Waiting c', cycles') \<longrightarrow>
        (\<exists>new. cycles' = cycles @ new \<and> (readiness c' \<longleftrightarrow> readiness c \<or> Deployed \<in> set new)))
   \<and> (Run (NewMeshController mode meshNs) cfgMap sel listed evs = (Waiting c', cycles') \<longrightarrow>
        (readiness c' \<longleftrightarrow> Deployed \<in> set cycles'))"
proof (intro conjI impI)
  assume "Run_select c ev = Next cy c'"
  then show "readiness c' \<longleftrightarrow> readiness c \<or> cy = Deployed" by (rule Run_select_readiness)
next
  assume go: "message = ConfigMessageChanForce \<or> lastConfiguration c \<noteq> Ptr conf"
  let ?c1 = "c\<lparr>lastConfiguration := Ptr conf\<rparr>"
  from refresh_deploys [OF go] obtain c2 where
    s: "Run_select c (ConfigRefresh message (Inr conf) podList http)
          = (case fst (deployConfiguration ?c1 podList http conf) of
               Some e \<Rightarrow> Next (DeployFailed e) c2 | None \<Rightarrow> Next Deployed (EnableReadiness c2))"
    by blast
  have "(\<exists>c2. Run_select c (ConfigRefresh message (Inr conf) podList http) = Next Deployed c2)
      \<longleftrightarrow> fst (deployConfiguration ?c1 podList http conf) = None"
    unfolding s by (cases "fst (deployConfiguration ?c1 podList http conf)") auto
  then show "(\<exists>c2. Run_select c (ConfigRefresh message (Inr conf) podList http) = Next Deployed c2)
           \<longleftrightarrow> (\<exists>pods. podList = Inr pods \<and> pods \<noteq> []
                  \<and> (\<forall>pod \<in> set pods. pushed_ok http pod))"
    by (simp only: deployConfiguration_ok_iff)
next
  assume a: "Run_select c (ConfigRefresh message built podList http) = Next Deployed c'"
  then obtain conf where b: "built = Inr conf"
    by (cases built) (auto simp: Run_select_def)
  let ?c1 = "c\<lparr>lastConfiguration := Ptr conf\<rparr>"
  obtain r c2 where d: "deployConfiguration ?c1 podList http conf = (r, c2)"
    by (cases "deployConfiguration ?c1 podList http conf")
  from a b d have rc: "r = None" "c' = EnableReadiness c2"
    by (auto simp: Run_select_def split: if_splits option.splits)
  from deployConfiguration_effect [OF d] rc(1) obtain new pods where
    e: "puts c2 = puts ?c1 @ new" "podList = Inr pods" "pods \<noteq> []"
    "\<forall>pod \<in> set pods. (pod_IP pod, conf) \<in> set new"
    by blast
  from deployConfiguration_ok_iff [of ?c1 podList http conf] d rc(1) e(2)
  have "\<forall>pod \<in> set pods. pushed_ok http pod" by simp
  with b rc(2) e show "\<exists>conf pods. built = Inr conf \<and> podList = Inr pods \<and> pods \<noteq> []
           \<and> (\<forall>pod \<in> set pods. pushed_ok http pod \<and> (pod_IP pod, conf) \<in> set (puts c'))"
    by (auto simp: EnableReadiness_def)
next
  assume l: "lastConfiguration c = Ptr conf"
  have "(\<exists>c2. Run_select c (TimerC podList http) = Next Deployed c2)
      \<longleftrightarrow> fst (deployConfigurationToUnreadyNodes c podList http conf) = None"
    unfolding timer_deploys [OF l]
    by (cases "fst (deployConfigurationToUnreadyNodes c podList http conf)") auto
  then show "(\<exists>c2. Run_select c (TimerC podList http) = Next Deployed c2)
           \<longleftrightarrow> (\<exists>pods. podList = Inr pods \<and> pods \<noteq> []
                  \<and> (\<forall>pod \<in> set pods. status_range (pod_ContainerStatuses pod) \<longrightarrow>
                        pushed_ok http pod))"
    by (simp only: deployConfigurationToUnreadyNodes_ok_iff)
next
  assume a: "Run_select c (TimerC podList http) = Next Deployed c'"
  then obtain conf where l: "lastConfiguration c = Ptr conf"
    by (cases "lastConfiguration c") (auto simp: Run_select_def)
  obtain r c2 where d: "deployConfigurationToUnreadyNodes c podList http conf = (r, c2)"
    by (cases "deployConfigurationToUnreadyNodes c podList http conf")
  from a l d have rc: "r = None" "c' = EnableReadiness c2"
    by (auto simp: Run_select_def split: option.splits)
  from deployConfigurationToUnreadyNodes_effect [OF d] rc(1) obtain new pods where
    e: "puts c2 = puts c @ new" "podList = Inr pods" "pods \<noteq> []"
    "\<forall>pod \<in> set pods. status_range (pod_ContainerStatuses pod) \<longrightarrow> (pod_IP pod, conf) \<in> set new"
    by blast
  from deployConfigurationToUnreadyNodes_ok_iff [of c podList http conf] d rc(1) e(2)
  have "\<forall>pod \<in> set pods. status_range (pod_ContainerStatuses pod) \<longrightarrow> pushed_ok http pod" by simp
  with l rc(2) e show "\<exists>conf pods. lastConfiguration c = Ptr conf \<and> podList = Inr pods \<and> pods \<noteq> []
           \<and> (\<forall>pod \<in> set pods. status_range (pod_ContainerStatuses pod) \<longrightarrow>
                 pushed_ok http pod \<and> (pod_IP pod, conf) \<in> set (puts c'))"
    by (auto simp: EnableReadiness_def)
next
  assume a: "lastConfiguration c = Ptr conf \<and> pods \<noteq> []
        \<and> (\<forall>pod \<in> set pods. \<not> status_range (pod_ContainerStatuses pod))"
  then have "deployConfigurationToUnreadyNodes c (Inr pods) http conf = (None, c)"
    by (simp add: deployConfigurationToUnreadyNodes_none_unready)
  with a show "Run_select c (TimerC (Inr pods) http) = Next Deployed (EnableReadiness c)"
    by (simp add: timer_deploys)
next
  assume "Run_for c evs cycles = (Waiting c', cycles')"
  then show "\<exists>new. cycles' = cycles @ new \<and> (readiness c' \<longleftrightarrow> readiness c \<or> Deployed \<in> set new)"
    by (rule Run_for_readiness)
next
  assume a: "Run (NewMeshController mode meshNs) cfgMap sel listed evs = (Waiting c', cycles')"
  from Run_cases [of cfgMap "NewMeshController mode meshNs" sel listed evs] a
  obtain c2 where "Run_for c2 evs [] = (Waiting c', cycles')"
    "readiness c2 = readiness (NewMeshController mode meshNs :: 'a Controller)"
    by auto
  with Run_for_readiness [of c2 evs "[]" c' cycles']
  show "readiness c' \<longleftrightarrow> Deployed \<in> set cycles'"
    by (auto simp: NewMeshController_def)
qed

theorem readiness_after_deploy_witness:
  "Run (NewMeshController ''http'' ''maesh'' :: nat Controller) (Inr []) None (Inr [])
     [ConfigRefresh ''normal'' (Inr (Some 7))
        (Inr [\<lparr>pod_Name = ''maesh-mesh-1'', pod_IP = ''10.0.0.1'', pod_ContainerStatuses = [True]\<rparr>])
        (always (Do (Some (None, 503)) None)),
      TimerC (Inr [\<lparr>pod_Name = ''maesh-mesh-1'', pod_IP = ''10.0.0.1'', pod_ContainerStatuses = [False]\<rparr>])
        (always (Do (Some (None, 200)) None))]
    = (Waiting
         \<lparr>defaultMode = ''http'', meshNamespace = ''maesh'',
           tcpStateTable = \<lparr>table = Map.empty, minPort = 10000, maxPort = 10100\<rparr>,
           lastConfiguration = Ptr (Some 7), readiness = True,
           deployLog =
             [\<lparr>dr_Name = ''maesh-mesh-1'', dr_IP = ''10.0.0.1'', dr_Success = False,
                dr_Message = ''received non-ok response code''\<rparr>,
              \<lparr>dr_Name = ''maesh-mesh-1'', dr_IP = ''10.0.0.1'', dr_Success = True, dr_Message = []\<rparr>],
           puts = [(''10.0.0.1'', Some 7), (''10.0.0.1'', Some 7)], created = [], logged = []\<rparr>,
       [DeployFailed (ErrDeploy (ErrStatus 503)), Deployed])
   \<and> pushed_ok (always (Do (Some (None, 200)) None))
        \<lparr>pod_Name = ''maesh-mesh-1'', pod_IP = ''10.0.0.1'', pod_ContainerStatuses = [False]\<rparr>
   \<and> \<not> pushed_ok (always (Do (Some (None, 503)) None))
        \<lparr>pod_Name = ''maesh-mesh-1'', pod_IP = ''10.0.0.1'', pod_ContainerStatuses = [True]\<rparr>
   \<and> \<not> pushed_ok (always (Do (Some (None, 200)) None))
        \<lparr>pod_Name = ''maesh-mesh-2'', pod_IP = [], pod_ContainerStatuses = [False]\<rparr>
   \<and> lastConfiguration ((NewMeshController ''http'' ''maesh'' :: nat Controller)\<lparr>lastConfiguration := Ptr (Some 7)\<rparr>)
       = Ptr (Some 7)
   \<and> Run_select ((NewMeshController ''http'' ''maesh'' :: nat Controller)\<lparr>lastConfiguration := Ptr (Some 7)\<rparr>)
        (TimerC (Inr [\<lparr>pod_Name = ''maesh-mesh-2'', pod_IP = [], pod_ContainerStatuses = [False]\<rparr>])
           (always (Do (Some (None, 200)) None)))
       = Next (DeployFailed (ErrDeploy ErrPodNoNameOrIP))
           ((NewMeshController ''http'' ''maesh'' :: nat Controller)\<lparr>lastConfiguration := Ptr (Some 7)\<rparr>)
   \<and> \<not> status_range (pod_ContainerStatuses
          \<lparr>pod_Name = ''maesh-mesh-2'', pod_IP = [], pod_ContainerStatuses = [True]\<rparr>)
   \<and> Run_select ((NewMeshController ''http'' ''maesh'' :: nat Controller)\<lparr>lastConfiguration := Ptr (Some 7)\<rparr>)
        (TimerC (Inr [\<lparr>pod_Name = ''maesh-mesh-2'', pod_IP = [], pod_ContainerStatuses = [True]\<rparr>])
           (always (Do (Some (None, 503)) None)))
       = Next Deployed
           ((NewMeshController ''http'' ''maesh'' :: nat Controller)\<lparr>lastConfiguration := Ptr (Some 7), readiness := True\<rparr>)
   \<and> Run (NewMeshController ''http'' ''maesh'' :: nat Controller) (Inr []) None (Inr [])
     [ConfigRefresh ''normal'' (Inr (Some 7))
        (Inr [\<lparr>pod_Name = ''maesh-mesh-1'', pod_IP = ''10.0.0.1'', pod_ContainerStatuses = [True]\<rparr>])
        (always (Do (Some (None, 503)) None))]
    = (Waiting
         \<lparr>defaultMode = ''http'', meshNamespace = ''maesh'',
           tcpStateTable = \<lparr>table = Map.empty, minPort = 10000, maxPort = 10100\<rparr>,
           lastConfiguration = Ptr (Some 7), readiness = False,
           deployLog =
             [\<lparr>dr_Name = ''maesh-mesh-1'', dr_IP = ''10.0.0.1'', dr_Success = False,
                dr_Message = ''received non-ok response code''\<rparr>],
           puts = [(''10.0.0.1'', Some 7)], created = [], logged = []\<rparr>,
       [DeployFailed (ErrDeploy (ErrStatus 503))])"
  using readiness_after_deploy [where mode = "''http''" and meshNs = "''maesh''" and cfgMap = "Inr []"
      and sel = None and listed = "Inr []"
      and evs = "[ConfigRefresh ''normal'' (Inr (Some (7::nat)))
        (Inr [\<lparr>pod_Name = ''maesh-mesh-1'', pod_IP = ''10.0.0.1'', pod_ContainerStatuses = [True]\<rparr>])
        (always (Do (Some (None, 503)) None)),
      TimerC (Inr [\<lparr>pod_Name = ''maesh-mesh-1'', pod_IP = ''10.0.0.1'', pod_ContainerStatuses = [False]\<rparr>])
        (always (Do (Some (None, 200)) None))]"
      and c = "(NewMeshController ''http'' ''maesh'' :: nat Controller)\<lparr>lastConfiguration := Ptr (Some 7)\<rparr>"
      and conf = "Some 7"
      and pods = "[\<lparr>pod_Name = ''maesh-mesh-2'', pod_IP = [], pod_ContainerStatuses = [True]\<rparr>]"
      and http = "always (Do (Some (None, 503)) None)"]
  by (simp add: run_eval accepted_def pushed_ok_def)

theorem readiness_after_deploy_counterexample:
  "Run (NewMeshController ''http'' ''maesh'' :: nat Controller) (Inr []) None (Inr [])
     [ConfigRefresh ''normal'' (Inr (Some 7)) (Inr []) (always (Do (Some (None, 200)) None)),
      TimerC (Inr [\<lparr>pod_Name = ''maesh-mesh-1'', pod_IP = ''10.0.0.1'', pod_ContainerStatuses = [True]\<rparr>])
        (always (Do (Some (None, 200)) None))]
    = (Waiting
         \<lparr>defaultMode = ''http'', meshNamespace = ''maesh'',
           tcpStateTable = \<lparr>table = Map.empty, minPort = 10000, maxPort = 10100\<rparr>,
           lastConfiguration = Ptr (Some 7), readiness = True, deployLog = [],
           puts = [], created = [], logged = []\<rparr>,
       [DeployFailed ErrNoPods, Deployed])"
  by (simp add: run_eval)

text \<open>
  C6, as the code has it. A refresh for which \<open>BuildConfig\<close> returned a configuration
  never ends the loop, whatever the deploy returns, and neither does a tick once a
  configuration is stored. A deploy fails exactly when the pod lister fails, lists no
  pod, or some pod that is to be sent the configuration does not take it; the pass then
  ends by \<open>break\<close>, readiness stays as it was, and the next event is handled. The error
  is dropped: no pass of the loop writes a warning or an error line. When the lister
  fails or lists no pod, a refresh changes nothing but the stored configuration. A
  refresh for which \<open>BuildConfig\<close> fails makes \<open>Run\<close> return that error; the events after
  it are not handled. At the start, \<open>Run\<close> returns the error of reading the port
  mapping's document, while a document that was read always loads; when
  \<open>createMeshServices\<close> fails, as it does when the label selector or the listing of the
  services fails, \<open>Run\<close> writes the line \<open>could not create mesh services\<close> at error level
  and enters the loop.
\<close>

theorem Run_cycle_failures:
  "(\<exists>cy c'. Run_select c (ConfigRefresh message (Inr conf) podList http) = Next cy c'
       \<and> logged c' = logged c
       \<and> Run_for c (ConfigRefresh message (Inr conf) podList http # evs) cycles
           = Run_for c' evs (cycles @ [cy]))
   \<and> (lastConfiguration c \<noteq> NilValue \<longrightarrow>
        (\<exists>cy c'. Run_select c (TimerC podList http) = Next cy c'
           \<and> logged c' = logged c
           \<and> Run_for c (TimerC podList http # evs) cycles = Run_for c' evs (cycles @ [cy])))
   \<and> ((message = ConfigMessageChanForce \<or> lastConfiguration c \<noteq> Ptr conf)
        \<and> \<not> (\<exists>pods. podList = Inr pods \<and> pods \<noteq> [] \<and> (\<forall>pod \<in> set pods. pushed_ok http pod)) \<longrightarrow>
        (\<exists>e c'. Run_select c (ConfigRefresh message (Inr conf) podList http) = Next (DeployFailed e) c'
           \<and> logged c' = logged c \<and> readiness c' = readiness c
           \<and> Run_for c (ConfigRefresh message (Inr conf) podList http # evs) cycles
               = Run_for c' evs (cycles @ [DeployFailed e])))
   \<and> (lastConfiguration c = Ptr conf
        \<and> \<not> (\<exists>pods. podList = Inr pods \<and> pods \<noteq> []
                \<and> (\<forall>pod \<in> set pods. status_range (pod_ContainerStatuses pod) \<longrightarrow> pushed_ok http pod)) \<longrightarrow>
        (\<exists>e c'. Run_select c (TimerC podList http) = Next (DeployFailed e) c'
           \<and> logged c' = logged c \<and> readiness c' = readiness c
           \<and> Run_for c (TimerC podList http # evs) cycles = Run_for c' evs (cycles @ [DeployFailed e])))
   \<and> (message = ConfigMessageChanForce \<or> lastConfiguration c \<noteq> Ptr conf \<longrightarrow>
        Run_select c (ConfigRefresh message (Inr conf) (Inr []) http)
          = Next (DeployFailed ErrNoPods) (c\<lparr>lastConfiguration := Ptr conf\<rparr>)
        \<and> Run_select c (ConfigRefresh message (Inr conf) (Inl err) http)
          = Next (DeployFailed (ErrGetPods err)) (c\<lparr>lastConfiguration := Ptr conf\<rparr>))
   \<and> Run_for c (ConfigRefresh message (Inl err) podList http # evs) cycles
       = (Returned (Some (ErrBuildConfig err)), cycles)
   \<and> Run c (Inl err) sel listed evs = (Returned (Some (ErrLoadState err)), [])
   \<and> (\<exists>m. NewTCPPortMapping (Inr data) 10000 10100 (logged c) = (Inr m, logged c)
          \<and> (\<forall>c1. createMeshServices (c\<lparr>tcpStateTable := m\<rparr>) sel listed = (None, c1) \<longrightarrow>
                Run c (Inr data) sel listed evs = Run_for c1 evs [])
          \<and> (\<forall>e c1. createMeshServices (c\<lparr>tcpStateTable := m\<rparr>) sel listed = (Some e, c1) \<longrightarrow>
                Run c (Inr data) sel listed evs
                  = Run_for (c1\<lparr>logged := logged c1 @ [(Error, ''could not create mesh services'')]\<rparr>) evs [])
          \<and> Run c (Inr data) (Some err) listed evs
              = Run_for (c\<lparr>tcpStateTable := m,
                           logged := logged c @ [(Error, ''could not create mesh services'')]\<rparr>) evs []
          \<and> Run c (Inr data) None (Inl err) evs
              = Run_for (c\<lparr>tcpStateTable := m,
                           logged := logged c @ [(Error, ''could not create mesh services'')]\<rparr>) evs [])
   \<and> (\<exists>c'. Run c (Inr data) sel listed [] = (Waiting c', []))"
proof (intro conjI impI)
  let ?c1 = "c\<lparr>lastConfiguration := Ptr conf\<rparr>"
  obtain r c2 where d: "deployConfiguration ?c1 podList http conf = (r, c2)"
    by (cases "deployConfiguration ?c1 podList http conf")
  then have "\<exists>cy c'. Run_select c (ConfigRefresh message (Inr conf) podList http) = Next cy c'"
    by (cases r) (auto simp: Run_select_def)
  then obtain cy c' where s: "Run_select c (ConfigRefresh message (Inr conf) podList http) = Next cy c'"
    by blast
  from Run_select_logged [OF s] s
  show "\<exists>cy c'. Run_select c (ConfigRefresh message (Inr conf) podList http) = Next cy c'
       \<and> logged c' = logged c
       \<and> Run_for c (ConfigRefresh message (Inr conf) podList http # evs) cycles
           = Run_for c' evs (cycles @ [cy])"
    by auto
next
  assume "lastConfiguration c \<noteq> NilValue"
  then obtain p where l: "lastConfiguration c = Ptr p" by (cases "lastConfiguration c") auto
  obtain r c2 where d: "deployConfigurationToUnreadyNodes c podList http p = (r, c2)"
    by (cases "deployConfigurationToUnreadyNodes c podList http p")
  with l have "\<exists>cy c'. Run_select c (TimerC podList http) = Next cy c'"
    by (cases r) (auto simp: Run_select_def)
  then obtain cy c' where s: "Run_select c (TimerC podList http) = Next cy c'"
    by blast
  from Run_select_logged [OF s] s
  show "\<exists>cy c'. Run_select c (TimerC podList http) = Next cy c'
           \<and> logged c' = logged c
           \<and> Run_for c (TimerC podList http # evs) cycles = Run_for c' evs (cycles @ [cy])"
    by auto
next
  assume a: "(message = ConfigMessageChanForce \<or> lastConfiguration c \<noteq> Ptr conf)
        \<and> \<not> (\<exists>pods. podList = Inr pods \<and> pods \<noteq> [] \<and> (\<forall>pod \<in> set pods. pushed_ok http pod))"
  let ?c1 = "c\<lparr>lastConfiguration := Ptr conf\<rparr>"
  from a have go: "message = ConfigMessageChanForce \<or> lastConfiguration c \<noteq> Ptr conf" by simp
  from a deployConfiguration_ok_iff [of ?c1 podList http conf]
  obtain e where f: "fst (deployConfiguration ?c1 podList http conf) = Some e"
    by (cases "fst (deployConfiguration ?c1 podList http conf)") auto
  from refresh_deploys [OF go, where podList = podList and http = http] f
  obtain c' where s: "Run_select c (ConfigRefresh message (Inr conf) podList http) = Next (DeployFailed e) c'"
    by auto
  from Run_select_logged [OF s] Run_select_readiness [OF s] s
  show "\<exists>e c'. Run_select c (ConfigRefresh message (Inr conf) podList http) = Next (DeployFailed e) c'
           \<and> logged c' = logged c \<and> readiness c' = readiness c
           \<and> Run_for c (ConfigRefresh message (Inr conf) podList http # evs) cycles
               = Run_for c' evs (cycles @ [DeployFailed e])"
    by auto
next
  assume a: "lastConfiguration c = Ptr conf
        \<and> \<not> (\<exists>pods. podList = Inr pods \<and> pods \<noteq> []
                \<and> (\<forall>pod \<in> set pods. status_range (pod_ContainerStatuses pod) \<longrightarrow> pushed_ok http pod))"
  then have l: "lastConfiguration c = Ptr conf" by simp
  from a deployConfigurationToUnreadyNodes_ok_iff [of c podList http conf]
  obtain e where f: "fst (deployConfigurationToUnreadyNodes c podList http conf) = Some e"
    by (cases "fst (deployConfigurationToUnreadyNodes c podList http conf)") auto
  with timer_deploys [OF l, where podList = podList and http = http]
  have s: "Run_select c (TimerC podList http)
             = Next (DeployFailed e) (snd (deployConfigurationToUnreadyNodes c podList http conf))"
    by simp
  from Run_select_logged [OF s] Run_select_readiness [OF s] s
  show "\<exists>e c'. Run_select c (TimerC podList http) = Next (DeployFailed e) c'
           \<and> logged c' = logged c \<and> readiness c' = readiness c
           \<and> Run_for c (TimerC podList http # evs) cycles = Run_for c' evs (cycles @ [DeployFailed e])"
    by auto
next
  assume "message = ConfigMessageChanForce \<or> lastConfiguration c \<noteq> Ptr conf"
  then show "Run_select c (ConfigRefresh message (Inr conf) (Inr []) http)
          = Next (DeployFailed ErrNoPods) (c\<lparr>lastConfiguration := Ptr conf\<rparr>)"
    by (auto simp: Run_select_def DeepEqual_iff deployConfiguration_def)
next
  assume "message = ConfigMessageChanForce \<or> lastConfiguration c \<noteq> Ptr conf"
  then show "Run_select c (ConfigRefresh message (Inr conf) (Inl err) http)
          = Next (DeployFailed (ErrGetPods err)) (c\<lparr>lastConfiguration := Ptr conf\<rparr>)"
    by (auto simp: Run_select_def DeepEqual_iff deployConfiguration_def)
next
  show "Run_for c (ConfigRefresh message (Inl err) podList http # evs) cycles
       = (Returned (Some (ErrBuildConfig err)), cycles)"
    by (simp add: Run_select_def)
next
  show "Run c (Inl err) sel listed evs = (Returned (Some (ErrLoadState err)), [])"
    using Run_cases [of "Inl err" c sel listed evs] by simp
next
  from NewTCPPortMapping_loads [of data 10000 10100 "logged c"]
  obtain m where n: "NewTCPPortMapping (Inr data) 10000 10100 (logged c) = (Inr m, logged c)" ..
  have e: "c\<lparr>tcpStateTable := m, logged := logged c\<rparr> = c\<lparr>tcpStateTable := m\<rparr>" by simp
  have "\<forall>c1. createMeshServices (c\<lparr>tcpStateTable := m\<rparr>) sel listed = (None, c1) \<longrightarrow>
                Run c (Inr data) sel listed evs = Run_for c1 evs []"
    using n e by (simp add: Run_def)
  moreover have "\<forall>e c1. createMeshServices (c\<lparr>tcpStateTable := m\<rparr>) sel listed = (Some e, c1) \<longrightarrow>
                Run c (Inr data) sel listed evs
                  = Run_for (c1\<lparr>logged := logged c1 @ [(Error, ''could not create mesh services'')]\<rparr>) evs []"
    using n e by (simp add: Run_def)
  moreover have "Run c (Inr data) (Some err) listed evs
              = Run_for (c\<lparr>tcpStateTable := m,
                           logged := logged c @ [(Error, ''could not create mesh services'')]\<rparr>) evs []"
    using n e by (simp add: Run_def createMeshServices_def)
  moreover have "Run c (Inr data) None (Inl err) evs
              = Run_for (c\<lparr>tcpStateTable := m,
                           logged := logged c @ [(Error, ''could not create mesh services'')]\<rparr>) evs []"
    using n e by (simp add: Run_def createMeshServices_def)
  ultimately show "\<exists>m. NewTCPPortMapping (Inr data) 10000 10100 (logged c) = (Inr m, logged c)
          \<and> (\<forall>c1. createMeshServices (c\<lparr>tcpStateTable := m\<rparr>) sel listed = (None, c1) \<longrightarrow>
                Run c (Inr data) sel listed evs = Run_for c1 evs [])
          \<and> (\<forall>e c1. createMeshServices (c\<lparr>tcpStateTable := m\<rparr>) sel listed = (Some e, c1) \<longrightarrow>
                Run c (Inr data) sel listed evs
                  = Run_for (c1\<lparr>logged := logged c1 @ [(Error, ''could not create mesh services'')]\<rparr>) evs [])
          \<and> Run c (Inr data) (Some err) listed evs
              = Run_for (c\<lparr>tcpStateTable := m,
                           logged := logged c @ [(Error, ''could not create mesh services'')]\<rparr>) evs []
          \<and> Run c (Inr data) None (Inl err) evs
              = Run_for (c\<lparr>tcpStateTable := m,
                           logged := logged c @ [(Error, ''could not create mesh services'')]\<rparr>) evs []"
    using n by blast
next
  show "\<exists>c'. Run c (Inr data) sel listed [] = (Waiting c', [])"
    using Run_cases [of "Inr data" c sel listed "[]"] by auto
qed

theorem Run_cycle_failures_witness:
  "lastConfiguration ((NewMeshController ''http'' ''maesh'' :: nat Controller)\<lparr>lastConfiguration := Ptr (Some 7)\<rparr>) \<noteq> NilValue
   \<and> Run_select ((NewMeshController ''http'' ''maesh'' :: nat Controller)\<lparr>lastConfiguration := Ptr (Some 7)\<rparr>)
        (TimerC (Inr []) (always (Do (Some (None, 200)) None)))
       = Next (DeployFailed ErrNoPods)
           ((NewMeshController ''http'' ''maesh'' :: nat Controller)\<lparr>lastConfiguration := Ptr (Some 7)\<rparr>)
   \<and> ''force'' = ConfigMessageChanForce
   \<and> \<not> (\<exists>pods. (Inr [] :: string + Pod list) = Inr pods \<and> pods \<noteq> []
            \<and> (\<forall>pod \<in> set pods. pushed_ok (always (Do (Some (None, 200)) None)) pod))
   \<and> \<not> (\<exists>pods. (Inr [] :: string + Pod list) = Inr pods \<and> pods \<noteq> []
            \<and> (\<forall>pod \<in> set pods. status_range (pod_ContainerStatuses pod) \<longrightarrow>
                  pushed_ok (always (Do (Some (None, 200)) None)) pod))
   \<and> Run_for ((NewMeshController ''http'' ''maesh'' :: nat Controller)\<lparr>lastConfiguration := Ptr (Some 7)\<rparr>)
        [ConfigRefresh ''force'' (Inr (Some 7)) (Inr []) (always (Do (Some (None, 200)) None)),
         TimerC (Inr []) (always (Do (Some (None, 200)) None))] []
       = (Waiting ((NewMeshController ''http'' ''maesh'' :: nat Controller)\<lparr>lastConfiguration := Ptr (Some 7)\<rparr>),
          [DeployFailed ErrNoPods, DeployFailed ErrNoPods])
   \<and> Run (NewMeshController ''http'' ''maesh'' :: nat Controller) (Inr []) (Some ''bad selector'') (Inr [])
        [ConfigRefresh ''normal'' (Inr (Some 7))
           (Inr [\<lparr>pod_Name = ''maesh-mesh-1'', pod_IP = ''10.0.0.1'', pod_ContainerStatuses = [True]\<rparr>])
           (always (Do (Some (None, 503)) None)),
         ConfigRefresh ''force'' (Inr (Some 7))
           (Inr [\<lparr>pod_Name = ''maesh-mesh-1'', pod_IP = ''10.0.0.1'', pod_ContainerStatuses = [True]\<rparr>])
           (always (Do (Some (None, 200)) None))]
       = (Waiting
           \<lparr>defaultMode = ''http'', meshNamespace = ''maesh'',
             tcpStateTable = \<lparr>table = Map.empty, minPort = 10000, maxPort = 10100\<rparr>,
             lastConfiguration = Ptr (Some 7), readiness = True,
             deployLog =
               [\<lparr>dr_Name = ''maesh-mesh-1'', dr_IP = ''10.0.0.1'', dr_Success = False,
                  dr_Message = ''received non-ok response code''\<rparr>,
                \<lparr>dr_Name = ''maesh-mesh-1'', dr_IP = ''10.0.0.1'', dr_Success = True, dr_Message = []\<rparr>],
             puts = [(''10.0.0.1'', Some 7), (''10.0.0.1'', Some 7)], created = [],
             logged = [(Error, ''could not create mesh services'')]\<rparr>,
          [DeployFailed (ErrDeploy (ErrStatus 503)), Deployed])"
  using Run_cycle_failures [where message = "''force''" and conf = "Some (7::nat)"
      and c = "(NewMeshController ''http'' ''maesh'' :: nat Controller)\<lparr>lastConfiguration := Ptr (Some 7)\<rparr>"
      and podList = "Inr []" and http = "always (Do (Some (None, 200)) None)"
      and evs = "[TimerC (Inr []) (always (Do (Some (None, 200)) None))]" and cycles = "[]"
      and data = "[]" and err = "''bad selector''"]
  by (simp add: run_eval)

theorem Run_cycle_failures_counterexample:
  "Run (NewMeshController ''http'' ''maesh'' :: nat Controller) (Inr []) None (Inr [])
     [ConfigRefresh ''normal'' (Inl ''boom'') (Inr []) (always (Do (Some (None, 200)) None)),
      ConfigRefresh ''normal'' (Inr (Some 7))
        (Inr [\<lparr>pod_Name = ''maesh-mesh-1'', pod_IP = ''10.0.0.1'', pod_ContainerStatuses = [True]\<rparr>])
        (always (Do (Some (None, 200)) None))]
    = (Returned (Some (ErrBuildConfig ''boom'')), [])
   \<and> Run (NewMeshController ''http'' ''maesh'' :: nat Controller) (Inr []) None (Inr [])
     [ConfigRefresh ''normal'' (Inr (Some 7)) (Inr []) (always (Do (Some (None, 200)) None))]
    = (Waiting
         \<lparr>defaultMode = ''http'', meshNamespace = ''maesh'',
           tcpStateTable = \<lparr>table = Map.empty, minPort = 10000, maxPort = 10100\<rparr>,
           lastConfiguration = Ptr (Some 7), readiness = False, deployLog = [],
           puts = [], created = [], logged = []\<rparr>,
       [DeployFailed ErrNoPods])"
  by (simp add: run_eval)

text \<open>
  C10 does not hold: nothing is stored in \<open>lastConfiguration\<close> before the loop, so when
  the timer fires before any refresh signal the type assertion in the timer's branch
  is applied to a nil interface and panics, whatever the port mapping's document and
  the services are.
\<close>

theorem Run_timer_first_panics:
  "Run (NewMeshController mode meshNs) (Inr data) sel listed (TimerC podList http # evs) = (Panicked, [])"
proof -
  from Run_cases [of "Inr data" "NewMeshController mode meshNs" sel listed "TimerC podList http # evs"]
  obtain c2 :: "'a Controller" where
    r: "Run (NewMeshController mode meshNs) (Inr data) sel listed (TimerC podList http # evs)
          = Run_for c2 (TimerC podList http # evs) []"
    and l: "lastConfiguration c2 = lastConfiguration (NewMeshController mode meshNs :: 'a Controller)"
    by auto
  from l have "lastConfiguration c2 = NilValue" by (simp add: NewMeshController_def)
  then have "Run_select c2 (TimerC podList http) = Panic" by (simp add: Run_select_def)
  with r show ?thesis by simp
qed

subsection \<open>The ports of a mesh service\<close>


















end
